theory Spec2Isabelle
  imports Main "HOL-Library.Sublist" "HOL-Library.AList"
begin

section \<open>Python strings\<close>

text \<open>
  A Python \<open>str\<close> is a \<open>string\<close>, a list of characters; a character is a code point
  below 256. \<open>lower\<close> maps the capital letters of that range (A to Z, and U+00C0 to U+00DE
  but for the multiplication sign U+00D7) to their small letters (\<open>digit7\<close>, the top bit of a
  character, tells the two ranges apart), and the white space of
  \<open>strip\<close> is that of \<open>str.isspace\<close> in that range, which includes the next-line
  character U+0085 and the no-break space U+00A0.
\<close>

definition startswith :: "string \<Rightarrow> string \<Rightarrow> bool" where
  "startswith s p = (take (length p) s = p)"

text \<open>\<open>sub in s\<close>: the substring test.\<close>

fun py_in :: "string \<Rightarrow> string \<Rightarrow> bool" where
  "py_in sub [] = (sub = [])"
| "py_in sub (c # s) = (take (length sub) (c # s) = sub \<or> py_in sub s)"

definition lower_char :: "char \<Rightarrow> char" where
  "lower_char c =
     (case map_of
        (if digit7 c
         then zip [CHR 0xC0, CHR 0xC1, CHR 0xC2, CHR 0xC3, CHR 0xC4, CHR 0xC5, CHR 0xC6, CHR 0xC7,
                   CHR 0xC8, CHR 0xC9, CHR 0xCA, CHR 0xCB, CHR 0xCC, CHR 0xCD, CHR 0xCE, CHR 0xCF,
                   CHR 0xD0, CHR 0xD1, CHR 0xD2, CHR 0xD3, CHR 0xD4, CHR 0xD5, CHR 0xD6, CHR 0xD8,
                   CHR 0xD9, CHR 0xDA, CHR 0xDB, CHR 0xDC, CHR 0xDD, CHR 0xDE]
                  [CHR 0xE0, CHR 0xE1, CHR 0xE2, CHR 0xE3, CHR 0xE4, CHR 0xE5, CHR 0xE6, CHR 0xE7,
                   CHR 0xE8, CHR 0xE9, CHR 0xEA, CHR 0xEB, CHR 0xEC, CHR 0xED, CHR 0xEE, CHR 0xEF,
                   CHR 0xF0, CHR 0xF1, CHR 0xF2, CHR 0xF3, CHR 0xF4, CHR 0xF5, CHR 0xF6, CHR 0xF8,
                   CHR 0xF9, CHR 0xFA, CHR 0xFB, CHR 0xFC, CHR 0xFD, CHR 0xFE]
         else zip ''ABCDEFGHIJKLMNOPQRSTUVWXYZ'' ''abcdefghijklmnopqrstuvwxyz'') c of
        Some d \<Rightarrow> d
      | None \<Rightarrow> c)"

definition lower :: "string \<Rightarrow> string" where
  "lower s = map lower_char s"

definition is_space :: "char \<Rightarrow> bool" where
  "is_space c = (c \<in> set [CHR 0x09, CHR 0x0A, CHR 0x0B, CHR 0x0C, CHR 0x0D,
                            CHR 0x1C, CHR 0x1D, CHR 0x1E, CHR 0x1F, CHR '' '',
                            CHR 0x85, CHR 0xA0])"

definition strip :: "string \<Rightarrow> string" where
  "strip s = rev (dropWhile is_space (rev (dropWhile is_space s)))"

text \<open>\<open>s.rstrip('/')\<close> removes every trailing slash.\<close>

definition rstrip_slash :: "string \<Rightarrow> string" where
  "rstrip_slash s = rev (dropWhile (\<lambda>c. c = CHR ''/'') (rev s))"

text \<open>\<open>s.replace(old, new, 1)\<close>: the first occurrence of \<open>old\<close>, if any, becomes \<open>new\<close>.\<close>

fun replace_first :: "string \<Rightarrow> string \<Rightarrow> string \<Rightarrow> string" where
  "replace_first old new [] = (if old = [] then new else [])"
| "replace_first old new (c # cs) =
     (if take (length old) (c # cs) = old then new @ drop (length old) (c # cs)
      else c # replace_first old new cs)"

text \<open>Decimal text of a natural number, as an f-string prints an \<open>int\<close>.\<close>

function str_nat :: "nat \<Rightarrow> string" where
  "str_nat n =
     (if n < 10 then [''0123456789'' ! n]
      else str_nat (n div 10) @ [''0123456789'' ! (n mod 10)])"
  by pat_completeness auto
termination
  by (relation "measure id") auto

section \<open>Exceptions\<close>

text \<open>
  Every exception of the source is a value: its class and its message. \<open>RetryError\<close> is
  what the retry decorator raises once its attempts are used up; it wraps the last failure.
\<close>

datatype exn_class =
  ClientError | AsyncTimeoutError | PlaywrightTimeoutError | AttributeError
  | PyException | OtherError

datatype exn = Raised exn_class string | RetryError exn

fun class_name :: "exn_class \<Rightarrow> string" where
  "class_name ClientError = ''ClientError''"
| "class_name AsyncTimeoutError = ''TimeoutError''"
| "class_name PlaywrightTimeoutError = ''TimeoutError''"
| "class_name AttributeError = ''AttributeError''"
| "class_name PyException = ''Exception''"
| "class_name OtherError = ''Error''"

text \<open>
  \<open>str(e)\<close>: the message. The text of a \<open>RetryError\<close> names the class of the wrapped
  failure, not its message (Python also prints the address of the attempt, left out here).
\<close>

fun str_exn :: "exn \<Rightarrow> string" where
  "str_exn (Raised c m) = m"
| "str_exn (RetryError (Raised c m)) =
     ''RetryError[<Future state=finished raised '' @ class_name c @ ''>]''"
| "str_exn (RetryError (RetryError e)) =
     ''RetryError[<Future state=finished raised RetryError>]''"

section \<open>URL normaliser\<close>

definition has_scheme :: "string \<Rightarrow> bool" where
  "has_scheme url = (startswith url ''http://'' \<or> startswith url ''https://'')"

definition normalize_url :: "string \<Rightarrow> string" where
  "normalize_url url = rstrip_slash (if \<not> has_scheme url then ''https://'' @ url else url)"

text \<open>
  \<open>urlparse\<close> belongs to the Python standard library, so \<open>generate_url_variations\<close> takes it
  as a parameter: the two attributes it reads are the scheme and the host name, which is
  \<open>None\<close> when the URL has no network location.
\<close>

record parsed_url =
  scheme :: string
  hostname :: "string option"

definition none_startswith :: exn where
  "none_startswith =
     Raised AttributeError
       ([CHR 0x27] @ ''NoneType'' @ [CHR 0x27] @ '' object has no attribute ''
        @ [CHR 0x27] @ ''startswith'' @ [CHR 0x27])"

definition generate_url_variations :: "(string \<Rightarrow> parsed_url) \<Rightarrow> string \<Rightarrow> exn + string list" where
  "generate_url_variations urlparse url =
     (let parsed = urlparse url in
      case hostname parsed of
        None \<Rightarrow> Inl none_startswith
      | Some host \<Rightarrow>
          Inr ([if startswith host ''www.'' then replace_first ''www.'' '''' url
                else replace_first ''://'' ''://www.'' url]
               @ [if scheme parsed = ''https'' then replace_first ''https://'' ''http://'' url
                  else replace_first ''http://'' ''https://'' url]))"

text \<open>
  A model of \<open>urllib.parse.urlparse\<close>, after the library's documented algorithm, for the
  two attributes read above: the scheme is the text before the first colon when it starts
  with a letter and consists of scheme characters, in lower case; the network location
  follows \<open>//\<close> up to the first of \<open>/ ? #\<close>; the host name is what follows the last \<open>@\<close>,
  up to the port's colon (or between square brackets), in lower case, and \<open>None\<close> when it is
  empty. Validation errors and the removal of control characters are not modelled. It is
  used to run the code on concrete URLs.
\<close>

definition is_alpha :: "char \<Rightarrow> bool" where
  "is_alpha c = (c \<in> set ''abcdefghijklmnopqrstuvwxyzABCDEFGHIJKLMNOPQRSTUVWXYZ'')"

definition is_scheme_char :: "char \<Rightarrow> bool" where
  "is_scheme_char c = (is_alpha c \<or> c \<in> set ''0123456789+-.'')"

definition split_scheme :: "string \<Rightarrow> string \<times> string" where
  "split_scheme url =
     (let pre = takeWhile (\<lambda>c. c \<noteq> CHR '':'') url in
      if length pre < length url \<and> pre \<noteq> [] \<and> is_alpha (hd pre) \<and> list_all is_scheme_char pre
      then (lower pre, drop (Suc (length pre)) url)
      else ([], url))"

definition netloc_of :: "string \<Rightarrow> string" where
  "netloc_of rest =
     (if take 2 rest = ''//'' then takeWhile (\<lambda>c. c \<notin> set ''/?#'') (drop 2 rest) else [])"

definition hostname_of :: "string \<Rightarrow> string option" where
  "hostname_of netloc =
     (let hostinfo = rev (takeWhile (\<lambda>c. c \<noteq> CHR ''@'') (rev netloc));
          host = (if CHR ''['' \<in> set hostinfo
                  then takeWhile (\<lambda>c. c \<noteq> CHR '']'')
                         (drop 1 (dropWhile (\<lambda>c. c \<noteq> CHR ''['') hostinfo))
                  else takeWhile (\<lambda>c. c \<noteq> CHR '':'') hostinfo)
      in if host = [] then None
         else Some (lower (takeWhile (\<lambda>c. c \<noteq> CHR ''%'') host)
                    @ dropWhile (\<lambda>c. c \<noteq> CHR ''%'') host))"

definition urlparse_std :: "string \<Rightarrow> parsed_url" where
  "urlparse_std url =
     (case split_scheme url of
        (sch, rest) \<Rightarrow> \<lparr>scheme = sch, hostname = hostname_of (netloc_of rest)\<rparr>)"

section \<open>Structural extractor\<close>

subsection \<open>Technology signatures\<close>

text \<open>
  \<open>_detect_technologies\<close> tests the lower-cased markup against each fingerprint in turn and
  appends the canonical name; \<open>list(set(technologies))\<close> leaves the names in no particular
  order, so the result is the set of the names found.
\<close>

definition hit :: "bool \<Rightarrow> string \<Rightarrow> string list" where
  "hit b name = (if b then [name] else [])"

definition technologies_found :: "string \<Rightarrow> string list" where
  "technologies_found html =
     (let h = lower html in
        hit (py_in ''hubspot'' h \<or> py_in ''hs-scripts.com'' h \<or> py_in ''hsforms'' h) ''HubSpot''
      @ hit (py_in ''salesforce.com'' h \<or> py_in ''force.com'' h \<or> py_in ''sfmc'' h
             \<or> (py_in ''salesforce'' h \<and> py_in ''data-sf'' h)) ''Salesforce''
      @ hit (py_in ''pipedrive'' h \<or> py_in ''pipedrive.com'' h) ''Pipedrive''
      @ hit (py_in ''google-analytics'' h \<or> py_in ''gtag('' h \<or> py_in ''ga('' h) ''Google Analytics''
      @ hit (py_in ''mixpanel'' h) ''Mixpanel''
      @ hit (py_in ''segment.com'' h \<or> py_in ''cdn.segment.com'' h \<or> py_in ''analytics.load('' h)
            ''Segment''
      @ hit (py_in ''mailchimp'' h) ''Mailchimp''
      @ hit (py_in ''marketo'' h) ''Marketo''
      @ hit (py_in ''pardot'' h) ''Pardot''
      @ hit (py_in ''intercom'' h) ''Intercom''
      @ hit (py_in ''zendesk'' h) ''Zendesk''
      @ hit (py_in ''drift'' h) ''Drift''
      @ hit (py_in ''calendly'' h) ''Calendly''
      @ hit (py_in ''acuity'' h) ''Acuity Scheduling''
      @ hit (py_in ''chili piper'' h) ''Chili Piper''
      @ hit (py_in ''pandadoc'' h) ''PandaDoc''
      @ hit (py_in ''docusign'' h) ''DocuSign''
      @ hit (py_in ''hellosign'' h) ''HelloSign''
      @ hit (py_in ''zapier'' h) ''Zapier''
      @ hit (py_in ''integromat'' h) ''Integromat''
      @ hit (py_in ''wordpress'' h) ''WordPress''
      @ hit (py_in ''shopify.com'' h \<or> py_in ''cdn.shopify.com'' h) ''Shopify''
      @ hit (py_in ''webflow'' h) ''Webflow''
      @ hit (py_in ''react'' h) ''React''
      @ hit (py_in ''vue'' h) ''Vue.js''
      @ hit (py_in ''angular'' h) ''Angular'')"

definition detect_technologies :: "string \<Rightarrow> string set" where
  "detect_technologies html = set (technologies_found html)"

subsection \<open>Social links\<close>

text \<open>
  The anchor scan of \<open>_extract_contact_information\<close>: \<open>anchors\<close> are the \<open>href\<close> values of
  \<open>soup.find_all('a', href=True)\<close>, in document order. A Python \<open>dict\<close> is an association
  list; \<open>d[k] = v\<close> is \<open>AList.update k v d\<close>, which replaces the value of a key already
  there and appends a new key.
\<close>

definition social_step :: "(string \<times> string) list \<Rightarrow> string \<Rightarrow> (string \<times> string) list" where
  "social_step social_links link =
     (let href = lower link in
      if py_in ''linkedin.com'' href then AList.update ''linkedin'' link social_links
      else if py_in ''twitter.com'' href then AList.update ''twitter'' link social_links
      else if py_in ''facebook.com'' href then AList.update ''facebook'' link social_links
      else if py_in ''instagram.com'' href then AList.update ''instagram'' link social_links
      else social_links)"

definition scan_social_links :: "string list \<Rightarrow> (string \<times> string) list" where
  "scan_social_links anchors = foldl social_step [] anchors"

text \<open>The branch of the \<open>if\<close>/\<open>elif\<close> chain an anchor takes: the platform it is filed under.\<close>

definition platform_of :: "string \<Rightarrow> string option" where
  "platform_of link =
     (let href = lower link in
      if py_in ''linkedin.com'' href then Some ''linkedin''
      else if py_in ''twitter.com'' href then Some ''twitter''
      else if py_in ''facebook.com'' href then Some ''facebook''
      else if py_in ''instagram.com'' href then Some ''instagram''
      else None)"

subsection \<open>Content sections\<close>

text \<open>
  \<open>select_one\<close> is BeautifulSoup's; the model reads it through \<open>sel\<close>, which gives for a
  selector the text (\<open>get_text()\<close>) of the first matching element, \<open>None\<close> when nothing
  matches, or the exception the selector engine raises.
\<close>

type_synonym select_text = "string \<Rightarrow> exn + string option"

definition dq :: string where
  "dq = [CHR 0x22]"

text \<open>The selectors \<open>[a*="v"]\<close> and \<open>[a="v"]\<close>.\<close>

definition attr_has :: "string \<Rightarrow> string \<Rightarrow> string" where
  "attr_has a v = ''['' @ a @ ''*='' @ dq @ v @ dq @ '']''"

definition attr_is :: "string \<Rightarrow> string \<Rightarrow> string" where
  "attr_is a v = ''['' @ a @ ''='' @ dq @ v @ dq @ '']''"

definition hero_selectors :: "string list" where
  "hero_selectors = [attr_has ''class'' ''hero'', attr_has ''class'' ''banner'',
                     attr_has ''class'' ''jumbotron'', ''main'', attr_is ''role'' ''main'']"

definition about_selectors :: "string list" where
  "about_selectors = [attr_has ''class'' ''about'', attr_has ''id'' ''about'',
                      ''section:contains('' @ dq @ ''About'' @ dq @ '')'',
                      attr_has ''class'' ''company'']"

definition product_selectors :: "string list" where
  "product_selectors = [attr_has ''class'' ''product'', attr_has ''class'' ''service'',
                        attr_has ''class'' ''solution'', attr_has ''class'' ''feature'']"

definition pricing_selectors :: "string list" where
  "pricing_selectors = [attr_has ''class'' ''pricing'', attr_has ''class'' ''price'',
                        attr_has ''class'' ''plan'', attr_has ''id'' ''pricing'']"

definition team_selectors :: "string list" where
  "team_selectors = [attr_has ''class'' ''team'', attr_has ''class'' ''about'',
                     attr_has ''class'' ''leadership'', attr_has ''class'' ''founder'']"

definition contact_selectors :: "string list" where
  "contact_selectors = [attr_has ''class'' ''contact'', attr_has ''id'' ''contact'',
                        ''footer'', attr_has ''class'' ''footer'']"

text \<open>The loops over a selector list: the first element found ends the loop.\<close>

fun first_match :: "select_text \<Rightarrow> string list \<Rightarrow> exn + string option" where
  "first_match sel [] = Inr None"
| "first_match sel (s # ss) =
     (case sel s of
        Inl e \<Rightarrow> Inl e
      | Inr (Some t) \<Rightarrow> Inr (Some t)
      | Inr None \<Rightarrow> first_match sel ss)"

text \<open>The loop of the about section, whose body is inside \<open>try: ... except: continue\<close>.\<close>

fun first_match_try :: "select_text \<Rightarrow> string list \<Rightarrow> string option" where
  "first_match_try sel [] = None"
| "first_match_try sel (s # ss) =
     (case sel s of
        Inl e \<Rightarrow> first_match_try sel ss
      | Inr (Some t) \<Rightarrow> Some t
      | Inr None \<Rightarrow> first_match_try sel ss)"

text \<open>The loop of the team section: an element counts only when its text mentions a team.\<close>

fun first_match_team :: "select_text \<Rightarrow> string list \<Rightarrow> exn + string option" where
  "first_match_team sel [] = Inr None"
| "first_match_team sel (s # ss) =
     (case sel s of
        Inl e \<Rightarrow> Inl e
      | Inr (Some t) \<Rightarrow>
          if py_in ''team'' (lower t) then Inr (Some t) else first_match_team sel ss
      | Inr None \<Rightarrow> first_match_team sel ss)"

text \<open>\<open>sections[key] = element.get_text().strip()\<close>, when an element was found.\<close>

definition store_section ::
  "string \<Rightarrow> string option \<Rightarrow> (string \<times> string) list \<Rightarrow> (string \<times> string) list" where
  "store_section key found sections =
     (case found of None \<Rightarrow> sections | Some t \<Rightarrow> AList.update key (strip t) sections)"

text \<open>The first part of \<open>_extract_content_sections\<close>: the dictionary \<open>sections\<close>.\<close>

definition collect_sections :: "select_text \<Rightarrow> exn + (string \<times> string) list" where
  "collect_sections sel =
     (case first_match sel hero_selectors of Inl e \<Rightarrow> Inl e | Inr hero \<Rightarrow>
      (let about = first_match_try sel about_selectors in
       case first_match sel product_selectors of Inl e \<Rightarrow> Inl e | Inr products \<Rightarrow>
       (case first_match sel pricing_selectors of Inl e \<Rightarrow> Inl e | Inr pricing \<Rightarrow>
        (case first_match_team sel team_selectors of Inl e \<Rightarrow> Inl e | Inr team \<Rightarrow>
         (case first_match sel contact_selectors of Inl e \<Rightarrow> Inl e | Inr contact \<Rightarrow>
            Inr (store_section ''contact_section'' contact
                (store_section ''team_section'' team
                (store_section ''pricing_section'' pricing
                (store_section ''products_services'' products
                (store_section ''about_section'' about
                (store_section ''hero_section'' hero [])))))))))))"

text \<open>The clean-up loop: only substantial sections are kept, and long ones are cut.\<close>

definition truncate_section :: "string \<Rightarrow> string" where
  "truncate_section content =
     (if length content > 2000 then take 2000 content @ ''... [truncated]'' else content)"

definition clean_step :: "(string \<times> string) list \<Rightarrow> string \<times> string \<Rightarrow> (string \<times> string) list" where
  "clean_step cleaned_sections item =
     (case item of (key, content) \<Rightarrow>
        if content \<noteq> [] \<and> length (strip content) > 20
        then AList.update key (truncate_section content) cleaned_sections
        else cleaned_sections)"

definition clean_sections :: "(string \<times> string) list \<Rightarrow> (string \<times> string) list" where
  "clean_sections sections = foldl clean_step [] sections"

definition extract_content_sections :: "select_text \<Rightarrow> exn + (string \<times> string) list" where
  "extract_content_sections sel =
     (case collect_sections sel of
        Inl e \<Rightarrow> Inl e
      | Inr sections \<Rightarrow> Inr (clean_sections sections))"

text \<open>Three pages for running the code: one with a hero of 25 characters and an about
  section of 15, one whose hero is two letters kept apart by twenty blanks, and one whose
  hero is 19 characters between two no-break spaces.\<close>

definition page_short_about :: select_text where
  "page_short_about s =
     (if s = ''main'' then Inr (Some ''Welcome to Acme Robotics!'')
      else if s = attr_has ''class'' ''about'' then Inr (Some ''We make robots.'')
      else Inr None)"

definition page_blank_hero :: select_text where
  "page_blank_hero s =
     (if s = ''main'' then Inr (Some (''a'' @ replicate 20 (CHR '' '') @ ''b'')) else Inr None)"

definition page_nbsp_hero :: select_text where
  "page_nbsp_hero s =
     (if s = ''main'' then Inr (Some ([CHR 0xA0] @ ''nineteen characters'' @ [CHR 0xA0]))
      else Inr None)"

section \<open>Fetch strategies\<close>

text \<open>
  The scraper's configuration, with the defaults of the constructor. Only
  \<open>max_content_length\<close> and \<open>timeout\<close> are read by the fetch strategies; the time-out is
  handed to the libraries and shows in the model as the exceptions they raise.
\<close>

record scraper_config =
  timeout :: nat
  max_content_length :: nat
  max_retries :: nat
  retry_delay :: nat

definition default_config :: scraper_config where
  "default_config = \<lparr>timeout = 30, max_content_length = 500000, max_retries = 3, retry_delay = 2\<rparr>"

text \<open>
  The network is outside the program. \<open>http_get net n url\<close> is what the \<open>n\<close>-th HTTP request
  of a run meets when it is sent to \<open>url\<close>: an exception of the client library, or a
  response. \<open>browse net n url\<close> is what the \<open>n\<close>-th browser launched meets: for each step
  of the browser session the exception it raises, if any, and the markup and title of the
  rendered page.
\<close>

record http_response =
  status :: nat
  reason :: string
  body_text :: "exn + string"
  content_type :: "string option"

record browser_run =
  launch :: "exn option"
  page_setup :: "exn option"
  goto_networkidle :: "exn option"
  goto_domcontentloaded :: "exn option"
  wait_for_timeout :: "exn option"
  page_content :: "exn + string"
  page_title :: "exn + string"

record network =
  http_get :: "nat \<Rightarrow> string \<Rightarrow> exn + http_response"
  browse :: "nat \<Rightarrow> string \<Rightarrow> browser_run"

text \<open>
  What a run has done so far: the requests sent, the browsers launched and closed, and
  the delays slept between retries, in seconds, oldest first.
\<close>

record io_state =
  requests :: nat
  launches :: nat
  closes :: nat
  sleeps :: "nat list"

definition io_start :: io_state where
  "io_start = \<lparr>requests = 0, launches = 0, closes = 0, sleeps = []\<rparr>"

text \<open>The values of the dictionaries the strategies return beside the markup.\<close>

datatype pyval = Str string | Num nat

type_synonym fetched = "string \<times> (string \<times> pyval) list"

definition truncate_html :: "nat \<Rightarrow> string \<Rightarrow> string" where
  "truncate_html max_len html = (if length html > max_len then take max_len html else html)"

subsection \<open>Lightweight fetch\<close>

text \<open>The body of \<open>_scrape_with_aiohttp\<close>, given what \<open>session.get\<close> met.\<close>

definition aiohttp_body :: "scraper_config \<Rightarrow> exn + http_response \<Rightarrow> exn + fetched" where
  "aiohttp_body cfg got =
     (case got of
        Inl e \<Rightarrow> Inl e
      | Inr response \<Rightarrow>
          if status response \<noteq> 200
          then Inl (Raised ClientError
                      (''HTTP '' @ str_nat (status response) @ '': '' @ reason response))
          else (case body_text response of
                  Inl e \<Rightarrow> Inl e
                | Inr text \<Rightarrow>
                    (let html = truncate_html (max_content_length cfg) text in
                     Inr (html,
                          [(''method'', Str ''aiohttp''),
                           (''status_code'', Num (status response)),
                           (''content_length'', Num (length html)),
                           (''content_type'',
                              Str (case content_type response of
                                     None \<Rightarrow> ''unknown'' | Some t \<Rightarrow> t))]))))"

definition aiohttp_once ::
  "scraper_config \<Rightarrow> network \<Rightarrow> string \<Rightarrow> io_state \<Rightarrow> (exn + fetched) \<times> io_state" where
  "aiohttp_once cfg net url st =
     (aiohttp_body cfg (http_get net (requests st) url), st\<lparr>requests := Suc (requests st)\<rparr>)"

text \<open>
  The decorator \<open>@retry(stop=stop_after_attempt(3), wait=wait_exponential(multiplier=1,
  min=2, max=10), retry=retry_if_exception_type((aiohttp.ClientError,
  asyncio.TimeoutError)))\<close> is tenacity's, a library outside the repository; the model
  follows its documented behaviour. After a failed attempt the exception is raised again
  unchanged when its class is not one of the two; otherwise \<open>RetryError\<close> is raised when
  the attempt was the last one allowed; otherwise the call sleeps and tries again. The
  delay after attempt \<open>k\<close> is \<open>multiplier * 2 ^ (k - 1)\<close>, kept between \<open>min\<close> and \<open>max\<close>.
\<close>

definition retryable :: "exn \<Rightarrow> bool" where
  "retryable e =
     (case e of
        Raised c m \<Rightarrow> c = ClientError \<or> c = AsyncTimeoutError
      | RetryError e' \<Rightarrow> False)"

definition wait_exponential :: "nat \<Rightarrow> nat \<Rightarrow> nat \<Rightarrow> nat \<Rightarrow> nat" where
  "wait_exponential multiplier lo hi attempt = max lo (min (multiplier * 2 ^ (attempt - 1)) hi)"

fun retrying ::
  "nat \<Rightarrow> nat \<Rightarrow> (io_state \<Rightarrow> (exn + 'a) \<times> io_state) \<Rightarrow> io_state \<Rightarrow> (exn + 'a) \<times> io_state" where
  "retrying 0 attempt f st =
     (case f st of
        (Inr v, st') \<Rightarrow> (Inr v, st')
      | (Inl e, st') \<Rightarrow> if \<not> retryable e then (Inl e, st') else (Inl (RetryError e), st'))"
| "retrying (Suc left) attempt f st =
     (case f st of
        (Inr v, st') \<Rightarrow> (Inr v, st')
      | (Inl e, st') \<Rightarrow>
          if \<not> retryable e then (Inl e, st')
          else retrying left (Suc attempt) f
                 (st'\<lparr>sleeps := sleeps st' @ [wait_exponential 1 2 10 attempt]\<rparr>))"

text \<open>\<open>_scrape_with_aiohttp\<close> as decorated: three attempts at most, numbered from 1.\<close>

definition scrape_with_aiohttp ::
  "scraper_config \<Rightarrow> network \<Rightarrow> string \<Rightarrow> io_state \<Rightarrow> (exn + fetched) \<times> io_state" where
  "scrape_with_aiohttp cfg net url st = retrying 2 1 (aiohttp_once cfg net url) st"

subsection \<open>Browser-rendering fetch\<close>

definition is_playwright_timeout :: "exn \<Rightarrow> bool" where
  "is_playwright_timeout e =
     (case e of Raised c m \<Rightarrow> c = PlaywrightTimeoutError | RetryError e' \<Rightarrow> False)"

text \<open>The \<open>try\<close> block of \<open>_scrape_with_playwright\<close>, run in a launched browser.\<close>

definition playwright_page :: "scraper_config \<Rightarrow> browser_run \<Rightarrow> exn + fetched" where
  "playwright_page cfg run =
     (case page_setup run of
        Some e \<Rightarrow> Inl e
      | None \<Rightarrow>
         (case (case goto_networkidle run of
                  None \<Rightarrow> None
                | Some e \<Rightarrow> if is_playwright_timeout e then goto_domcontentloaded run else Some e) of
            Some e \<Rightarrow> Inl e
          | None \<Rightarrow>
             (case wait_for_timeout run of
                Some e \<Rightarrow> Inl e
              | None \<Rightarrow>
                 (case page_content run of
                    Inl e \<Rightarrow> Inl e
                  | Inr text \<Rightarrow>
                     (let html = truncate_html (max_content_length cfg) text in
                      case page_title run of
                        Inl e \<Rightarrow> Inl e
                      | Inr title \<Rightarrow>
                          Inr (html,
                               [(''method'', Str ''playwright''),
                                (''content_length'', Num (length html)),
                                (''page_title'', Str title)]))))))"

text \<open>
  \<open>_scrape_with_playwright\<close> carries no decorator: one browser is launched, and the
  \<open>finally\<close> clause closes it whatever the \<open>try\<close> block did.
\<close>

definition scrape_with_playwright ::
  "scraper_config \<Rightarrow> network \<Rightarrow> string \<Rightarrow> io_state \<Rightarrow> (exn + fetched) \<times> io_state" where
  "scrape_with_playwright cfg net url st =
     (let run = browse net (launches st) url;
          st1 = st\<lparr>launches := Suc (launches st)\<rparr>
      in case launch run of
           Some e \<Rightarrow> (Inl e, st1)
         | None \<Rightarrow> (playwright_page cfg run, st1\<lparr>closes := Suc (closes st1)\<rparr>))"

subsection \<open>Example networks\<close>

text \<open>
  Responses, browser sessions and a network for running the strategies: on \<open>net_flaky\<close> the
  first request meets a 503 and the first browser times out under both wait conditions;
  every later request and browser gets the page.
\<close>

definition ok_response :: "string \<Rightarrow> http_response" where
  "ok_response html = \<lparr>status = 200, reason = ''OK'', body_text = Inr html,
                        content_type = Some ''text/html''\<rparr>"

definition error_response :: "nat \<Rightarrow> string \<Rightarrow> http_response" where
  "error_response code why = \<lparr>status = code, reason = why, body_text = Inr ''<html>body</html>'',
                               content_type = None\<rparr>"

definition good_browser :: "string \<Rightarrow> browser_run" where
  "good_browser html = \<lparr>launch = None, page_setup = None, goto_networkidle = None,
      goto_domcontentloaded = None, wait_for_timeout = None, page_content = Inr html,
      page_title = Inr ''Acme''\<rparr>"

definition slow_browser :: browser_run where
  "slow_browser = \<lparr>launch = None, page_setup = None,
      goto_networkidle = Some (Raised PlaywrightTimeoutError ''Timeout 30000ms exceeded.''),
      goto_domcontentloaded = Some (Raised PlaywrightTimeoutError ''Timeout 30000ms exceeded.''),
      wait_for_timeout = None, page_content = Inr [], page_title = Inr []\<rparr>"

definition net_flaky :: network where
  "net_flaky = \<lparr>http_get = (\<lambda>n url. if n = 0 then Inr (error_response 503 ''Service Unavailable'')
                                      else Inr (ok_response ''<html>hello</html>'')),
                 browse = (\<lambda>n url. if n = 0 then slow_browser else good_browser ''<html>hello</html>'')\<rparr>"

section \<open>Structured document and session record\<close>

text \<open>Parsed JSON-LD blocks are generic JSON values.\<close>

datatype json =
  JNull | JBool bool | JNum int | JStr string | JArr "json list" | JObj "(string \<times> json) list"

text \<open>
  \<open>contact_info\<close>: a dictionary with up to three keys; a key that is absent is \<open>None\<close>.
  \<open>list(set(emails))\<close> has no particular order, so the e-mail addresses are a set.
\<close>

record contact_information =
  emails :: "string set option"
  phones :: "string list option"
  social_media :: "(string \<times> string) list option"

record document =
  doc_url :: string
  html_text :: string
  meta_data :: "(string \<times> string) list"
  structured_data :: "json list"
  content_sections :: "(string \<times> string) list"
  technology_stack :: "string set"
  contact_info :: contact_information
  navigation_structure :: "string set"

text \<open>The dictionary returned when nothing could be scraped: only the URL is filled in.\<close>

definition empty_document :: "string \<Rightarrow> document" where
  "empty_document u =
     \<lparr>doc_url = u, html_text = [], meta_data = [], structured_data = [], content_sections = [],
      technology_stack = {},
      contact_info = \<lparr>emails = None, phones = None, social_media = None\<rparr>,
      navigation_structure = {}\<rparr>"

text \<open>
  \<open>ScrapingMetadata\<close>, the session record: the fields \<open>scrape_website\<close> writes, but for the
  wall-clock durations, which are floating-point readings of the clock.
\<close>

record ScrapingMetadata =
  scraping_method :: "string option"
  scraping_success :: bool
  content_length :: nat
  errors_encountered :: "string list"

text \<open>
  What the libraries give for a markup string: BeautifulSoup's view of the parsed page
  (after the script, style and layout elements and the comments are removed), the matches
  of the two regular expressions, and \<open>urlparse\<close>. The four extractors that no claim is
  about are functions of the markup and are read through it as well.
\<close>

record html_view =
  parse_url :: "string \<Rightarrow> parsed_url"
  soup_text :: "string \<Rightarrow> string"
  select_one_text :: "string \<Rightarrow> select_text"
  anchor_hrefs :: "string \<Rightarrow> string list"
  findall_emails :: "string \<Rightarrow> string list"
  findall_phones :: "string \<Rightarrow> (string \<times> string \<times> string \<times> string) list"
  extract_clean_text :: "string \<Rightarrow> string"
  extract_meta_tags :: "string \<Rightarrow> (string \<times> string) list"
  extract_json_ld :: "string \<Rightarrow> json list"
  extract_navigation_structure :: "string \<Rightarrow> string set"

definition extract_contact_information :: "html_view \<Rightarrow> string \<Rightarrow> contact_information" where
  "extract_contact_information lib html =
     (let text_content = soup_text lib html;
          found_emails = findall_emails lib text_content;
          found_phones = findall_phones lib text_content;
          social_links = scan_social_links (anchor_hrefs lib html)
      in \<lparr>emails = (if found_emails \<noteq> [] then Some (set found_emails) else None),
          phones = (if found_phones \<noteq> []
                    then Some (map (\<lambda>(a, b, c, d). a @ b @ c @ d) found_phones) else None),
          social_media = (if social_links \<noteq> [] then Some social_links else None)\<rparr>)"

definition extract_structured_data :: "html_view \<Rightarrow> string \<Rightarrow> string \<Rightarrow> exn + document" where
  "extract_structured_data lib html url =
     (case extract_content_sections (select_one_text lib html) of
        Inl e \<Rightarrow> Inl e
      | Inr sections \<Rightarrow>
          Inr \<lparr>doc_url = url,
               html_text = extract_clean_text lib html,
               meta_data = extract_meta_tags lib html,
               structured_data = extract_json_ld lib html,
               content_sections = sections,
               technology_stack = detect_technologies html,
               contact_info = extract_contact_information lib html,
               navigation_structure = extract_navigation_structure lib html\<rparr>)"

section \<open>Fetch orchestrator\<close>

text \<open>The local variables of \<open>scrape_website\<close> that its steps change.\<close>

record locals =
  html_content :: "string option"
  scraping_method_local :: "string option"
  normalized_url :: string
  metadata :: ScrapingMetadata

text \<open>\<open>not html_content\<close>: true of \<open>None\<close> and of the empty string.\<close>

definition falsy :: "string option \<Rightarrow> bool" where
  "falsy h = (h = None \<or> h = Some [])"

definition record_error :: "string \<Rightarrow> locals \<Rightarrow> locals" where
  "record_error msg loc =
     loc\<lparr>metadata := (metadata loc)\<lparr>errors_encountered := errors_encountered (metadata loc) @ [msg]\<rparr>\<rparr>"

text \<open>Method 1, the lightweight fetch of the normalised URL.\<close>

definition method_aiohttp ::
  "scraper_config \<Rightarrow> network \<Rightarrow> locals \<Rightarrow> io_state \<Rightarrow> locals \<times> io_state" where
  "method_aiohttp cfg net loc st =
     (case scrape_with_aiohttp cfg net (normalized_url loc) st of
        (Inr (html, info), st') \<Rightarrow>
          (loc\<lparr>html_content := Some html, scraping_method_local := Some ''aiohttp''\<rparr>, st')
      | (Inl aiohttp_error, st') \<Rightarrow>
          (record_error (''aiohttp: '' @ str_exn aiohttp_error) loc, st'))"

text \<open>Method 2, the browser fetch, when there is no content yet.\<close>

definition method_playwright ::
  "scraper_config \<Rightarrow> network \<Rightarrow> locals \<Rightarrow> io_state \<Rightarrow> locals \<times> io_state" where
  "method_playwright cfg net loc st =
     (if falsy (html_content loc)
      then (case scrape_with_playwright cfg net (normalized_url loc) st of
              (Inr (html, info), st') \<Rightarrow>
                (loc\<lparr>html_content := Some html, scraping_method_local := Some ''playwright''\<rparr>, st')
            | (Inl playwright_error, st') \<Rightarrow>
                (record_error (''playwright: '' @ str_exn playwright_error) loc, st'))
      else (loc, st))"

text \<open>
  Method 3, the loop over the URL variations: the first fetch that returns ends the loop
  (\<open>break\<close>); a fetch that raises is only logged.
\<close>

fun try_variations ::
  "scraper_config \<Rightarrow> network \<Rightarrow> string list \<Rightarrow> locals \<Rightarrow> io_state \<Rightarrow> locals \<times> io_state" where
  "try_variations cfg net [] loc st = (loc, st)"
| "try_variations cfg net (variation_url # rest) loc st =
     (case scrape_with_aiohttp cfg net variation_url st of
        (Inr (html, info), st') \<Rightarrow>
          (loc\<lparr>html_content := Some html, scraping_method_local := Some ''aiohttp_variation'',
               normalized_url := variation_url\<rparr>, st')
      | (Inl variation_error, st') \<Rightarrow> try_variations cfg net rest loc st')"

definition method_variations ::
  "scraper_config \<Rightarrow> network \<Rightarrow> html_view \<Rightarrow> locals \<Rightarrow> io_state \<Rightarrow> (exn + locals) \<times> io_state" where
  "method_variations cfg net lib loc st =
     (if falsy (html_content loc)
      then (case generate_url_variations (parse_url lib) (normalized_url loc) of
              Inl e \<Rightarrow> (Inl e, st)
            | Inr variations \<Rightarrow>
                (case try_variations cfg net variations loc st of (loc', st') \<Rightarrow> (Inr loc', st')))
      else (Inr loc, st))"

text \<open>The \<open>except Exception as e\<close> handler of \<open>scrape_website\<close>.\<close>

definition scrape_failed :: "locals \<Rightarrow> exn \<Rightarrow> document \<times> ScrapingMetadata" where
  "scrape_failed loc e =
     (empty_document (normalized_url loc),
      (metadata loc)\<lparr>scraping_success := False,
                      errors_encountered :=
                        errors_encountered (metadata loc) @ [''final_error: '' @ str_exn e]\<rparr>)"

text \<open>The end of the \<open>try\<close> block: the check for content, the extraction, the record.\<close>

definition scrape_finish :: "html_view \<Rightarrow> locals \<Rightarrow> document \<times> ScrapingMetadata" where
  "scrape_finish lib loc =
     (case html_content loc of
        None \<Rightarrow> scrape_failed loc (Raised PyException ''All scraping methods failed'')
      | Some html \<Rightarrow>
          if html = [] then scrape_failed loc (Raised PyException ''All scraping methods failed'')
          else (case extract_structured_data lib html (normalized_url loc) of
                  Inl e \<Rightarrow> scrape_failed loc e
                | Inr extracted_data \<Rightarrow>
                    (extracted_data,
                     (metadata loc)\<lparr>scraping_method := scraping_method_local loc,
                                     scraping_success := True,
                                     content_length := length html\<rparr>)))"

definition scrape_website ::
  "scraper_config \<Rightarrow> network \<Rightarrow> html_view \<Rightarrow> string \<Rightarrow> io_state
     \<Rightarrow> (document \<times> ScrapingMetadata) \<times> io_state" where
  "scrape_website cfg net lib url st =
     (let loc0 = \<lparr>html_content = None, scraping_method_local = None,
                  normalized_url = normalize_url url,
                  metadata = \<lparr>scraping_method = Some ''unknown'', scraping_success = False,
                              content_length = 0, errors_encountered = []\<rparr>\<rparr>
      in case method_aiohttp cfg net loc0 st of (loc1, st1) \<Rightarrow>
         (case method_playwright cfg net loc1 st1 of (loc2, st2) \<Rightarrow>
          (case method_variations cfg net lib loc2 st2 of
             (Inl e, st3) \<Rightarrow> (scrape_failed loc2 e, st3)
           | (Inr loc3, st3) \<Rightarrow> (scrape_finish lib loc3, st3))))"


subsection \<open>Example environments\<close>

text \<open>
  For running the orchestrator: a view of pages that are plain text without elements,
  and three networks. On \<open>net_down\<close> every request is refused and no browser starts; on
  \<open>net_www_only page\<close> only \<open>https://www.example.com\<close> answers, with \<open>page\<close>; on
  \<open>net_empty\<close> every request and every browser gets an empty page; on
  \<open>net_blank_primary page\<close> no browser starts and every request gets an empty page, but for
  \<open>https://www.example.com\<close>, which gets \<open>page\<close>.
\<close>

definition text_only_view :: html_view where
  "text_only_view =
     \<lparr>parse_url = urlparse_std,
      soup_text = (\<lambda>html. html),
      select_one_text = (\<lambda>html selector. Inr None),
      anchor_hrefs = (\<lambda>html. []),
      findall_emails = (\<lambda>text. []),
      findall_phones = (\<lambda>text. []),
      extract_clean_text = (\<lambda>html. html),
      extract_meta_tags = (\<lambda>html. []),
      extract_json_ld = (\<lambda>html. []),
      extract_navigation_structure = (\<lambda>html. {})\<rparr>"

definition no_browser :: browser_run where
  "no_browser = \<lparr>launch = Some (Raised OtherError ''Executable does not exist''),
      page_setup = None, goto_networkidle = None, goto_domcontentloaded = None,
      wait_for_timeout = None, page_content = Inr [], page_title = Inr []\<rparr>"

definition refused :: "exn + http_response" where
  "refused = Inl (Raised ClientError ''Cannot connect to host'')"


definition net_www_only :: "string \<Rightarrow> network" where
  "net_www_only page =
     \<lparr>http_get = (\<lambda>n url. if url = ''https://www.example.com'' then Inr (ok_response page)
                            else refused),
      browse = (\<lambda>n url. no_browser)\<rparr>"

definition net_empty :: network where
  "net_empty = \<lparr>http_get = (\<lambda>n url. Inr (ok_response [])), browse = (\<lambda>n url. good_browser [])\<rparr>"

definition net_blank_primary :: "string \<Rightarrow> network" where
  "net_blank_primary page =
     \<lparr>http_get = (\<lambda>n url. if url = ''https://www.example.com'' then Inr (ok_response page)
                            else Inr (ok_response [])),
      browse = (\<lambda>n url. no_browser)\<rparr>"

section \<open>Facts about the string functions\<close>

lemma py_in_iff: "py_in sub s \<longleftrightarrow> (\<exists>ps ss. s = ps @ sub @ ss)"
proof (induction s)
  case Nil
  then show ?case by auto
next
  case (Cons c s)
  have "take (length sub) (c # s) = sub \<longleftrightarrow> (\<exists>ss. c # s = sub @ ss)"
    by (metis append_eq_conv_conj append_take_drop_id)
  moreover have "(\<exists>ps ss. c # s = ps @ sub @ ss) \<longleftrightarrow>
      (\<exists>ss. c # s = sub @ ss) \<or> (\<exists>ps ss. s = ps @ sub @ ss)"
  proof
    assume "\<exists>ps ss. c # s = ps @ sub @ ss"
    then obtain ps ss where e: "c # s = ps @ sub @ ss" by blast
    show "(\<exists>ss. c # s = sub @ ss) \<or> (\<exists>ps ss. s = ps @ sub @ ss)"
    proof (cases ps)
      case Nil
      with e show ?thesis by auto
    next
      case (Cons p ps')
      with e have "s = ps' @ sub @ ss" by simp
      then show ?thesis by blast
    qed
  next
    assume "(\<exists>ss. c # s = sub @ ss) \<or> (\<exists>ps ss. s = ps @ sub @ ss)"
    then show "\<exists>ps ss. c # s = ps @ sub @ ss"
    proof
      assume "\<exists>ss. c # s = sub @ ss"
      then obtain ss where "c # s = [] @ sub @ ss" by auto
      then show ?thesis by blast
    next
      assume "\<exists>ps ss. s = ps @ sub @ ss"
      then obtain ps ss where "c # s = (c # ps) @ sub @ ss" by auto
      then show ?thesis by blast
    qed
  qed
  ultimately show ?case using Cons.IH by simp
qed

lemma rstrip_slash_decomp: "\<exists>n. s = rstrip_slash s @ replicate n (CHR ''/'')"
proof -
  have "rev s = takeWhile (\<lambda>c. c = CHR ''/'') (rev s) @ dropWhile (\<lambda>c. c = CHR ''/'') (rev s)"
    by simp
  then have "s = rev (dropWhile (\<lambda>c. c = CHR ''/'') (rev s))
                 @ rev (takeWhile (\<lambda>c. c = CHR ''/'') (rev s))"
    by (metis rev_append rev_rev_ident)
  moreover have "rev (takeWhile (\<lambda>c. c = CHR ''/'') (rev s))
      = replicate (length (takeWhile (\<lambda>c. c = CHR ''/'') (rev s))) (CHR ''/'')"
    by (rule replicate_eqI) (auto dest: set_takeWhileD)
  ultimately show ?thesis unfolding rstrip_slash_def by metis
qed

lemma rstrip_slash_last: "rstrip_slash s = [] \<or> last (rstrip_slash s) \<noteq> CHR ''/''"
proof (cases "dropWhile (\<lambda>c. c = CHR ''/'') (rev s)")
  case Nil
  then show ?thesis by (simp add: rstrip_slash_def)
next
  case (Cons a as)
  then have "a \<noteq> CHR ''/''" using hd_dropWhile[of "\<lambda>c. c = CHR ''/''" "rev s"] by auto
  with Cons show ?thesis by (simp add: rstrip_slash_def)
qed

section \<open>The URL normaliser: claims\<close>

text \<open>
  C7 (as the code has it). \<open>normalize_url\<close> is total. It puts \<open>https://\<close> in front exactly when
  the input starts with neither \<open>http://\<close> nor \<open>https://\<close>, and then removes every trailing
  slash, not one only: the input (with the scheme in front where it was missing) is the
  result followed by some number of slashes, and the result does not end with a slash.
\<close>

theorem normalize_url_strips_all_slashes:
  "(\<exists>n. (if has_scheme url then url else ''https://'' @ url)
          = normalize_url url @ replicate n (CHR ''/''))
   \<and> (normalize_url url = [] \<or> last (normalize_url url) \<noteq> CHR ''/'')"
  unfolding normalize_url_def
  using rstrip_slash_decomp[of "if \<not> has_scheme url then ''https://'' @ url else url"]
        rstrip_slash_last[of "if \<not> has_scheme url then ''https://'' @ url else url"]
  by (cases "has_scheme url") auto

text \<open>
  C7, counterexample: a URL ending in two slashes loses both, where stripping a single
  trailing slash would leave \<open>https://example.com/\<close>.
\<close>

theorem normalize_url_two_slashes:
  "normalize_url ''example.com//'' = ''https://example.com''
   \<and> normalize_url ''example.com//'' \<noteq> ''https://example.com/''"
  by (simp add: normalize_url_def has_scheme_def startswith_def rstrip_slash_def)

section \<open>URL variations: claims\<close>

text \<open>
  C8, the failing input. The empty input string normalises to \<open>https:\<close>, which has no host
  name; \<open>parsed.hostname.startswith\<close> then raises \<open>AttributeError\<close> and no list of two
  variations is returned.
\<close>

theorem generate_url_variations_no_host:
  "generate_url_variations urlparse_std (normalize_url '''') = Inl none_startswith"
  by (simp add: generate_url_variations_def urlparse_std_def split_scheme_def netloc_of_def
      hostname_of_def normalize_url_def has_scheme_def startswith_def rstrip_slash_def
      is_alpha_def is_scheme_char_def lower_def)

text \<open>
  Where the URL has a host name, the result has exactly two entries: the \<open>www.\<close> variation
  first, the scheme variation second, whatever \<open>urlparse\<close> computes.
\<close>

lemma generate_url_variations_two:
  "hostname (urlparse url) = Some host \<Longrightarrow>
     \<exists>v1 v2. generate_url_variations urlparse url = Inr [v1, v2]
       \<and> v1 = (if startswith host ''www.'' then replace_first ''www.'' '''' url
               else replace_first ''://'' ''://www.'' url)
       \<and> v2 = (if scheme (urlparse url) = ''https'' then replace_first ''https://'' ''http://'' url
               else replace_first ''http://'' ''https://'' url)"
  by (simp add: generate_url_variations_def)

lemma generate_url_variations_length:
  "generate_url_variations urlparse url = Inr vs \<Longrightarrow> length vs = 2"
  by (auto simp: generate_url_variations_def Let_def split: option.splits)

section \<open>Technology signatures: claims\<close>

lemma lower_append: "lower (a @ b) = lower a @ lower b"
  by (simp add: lower_def)

lemma py_in_lower:
  assumes "py_in sub s" and "lower sub = sub"
  shows "py_in sub (lower s)"
proof -
  from assms(1) obtain ps ss where "s = ps @ sub @ ss" unfolding py_in_iff by blast
  then have "lower s = lower ps @ sub @ lower ss" using assms(2) by (simp add: lower_append)
  then show ?thesis unfolding py_in_iff by blast
qed

lemma in_hit: "x \<in> set (hit b n) \<longleftrightarrow> b \<and> x = n"
  by (auto simp: hit_def)

lemma hubspot_iff:
  "''HubSpot'' \<in> detect_technologies html \<longleftrightarrow>
     py_in ''hubspot'' (lower html) \<or> py_in ''hs-scripts.com'' (lower html) \<or> py_in ''hsforms'' (lower html)"
  unfolding detect_technologies_def technologies_found_def Let_def
  by (simp add: in_hit)

lemma salesforce_iff:
  "''Salesforce'' \<in> detect_technologies html \<longleftrightarrow>
     py_in ''salesforce.com'' (lower html) \<or> py_in ''force.com'' (lower html) \<or> py_in ''sfmc'' (lower html)
      \<or> (py_in ''salesforce'' (lower html) \<and> py_in ''data-sf'' (lower html))"
  unfolding detect_technologies_def technologies_found_def Let_def
  by (simp add: in_hit)

text \<open>
  C9. Markup that contains \<open>hs-scripts.com\<close> yields \<open>HubSpot\<close>. Markup that mentions
  \<open>salesforce\<close> and holds none of the stronger signals \<open>salesforce.com\<close>, \<open>force.com\<close>,
  \<open>sfmc\<close>, \<open>data-sf\<close> does not yield \<open>Salesforce\<close>. The extractor matches without regard to
  case, so the signals are looked for in the lower-cased markup.
\<close>

theorem detect_technologies_hubspot_salesforce:
  "(py_in ''hs-scripts.com'' html \<longrightarrow> ''HubSpot'' \<in> detect_technologies html)
   \<and> (py_in ''salesforce'' (lower html)
        \<and> \<not> py_in ''salesforce.com'' (lower html) \<and> \<not> py_in ''force.com'' (lower html)
        \<and> \<not> py_in ''sfmc'' (lower html) \<and> \<not> py_in ''data-sf'' (lower html)
      \<longrightarrow> ''Salesforce'' \<notin> detect_technologies html)"
proof (intro conjI impI)
  assume "py_in ''hs-scripts.com'' html"
  then have "py_in ''hs-scripts.com'' (lower html)"
    by (rule py_in_lower) (simp add: lower_def lower_char_def)
  then show "''HubSpot'' \<in> detect_technologies html" by (simp add: hubspot_iff)
next
  assume "py_in ''salesforce'' (lower html)
        \<and> \<not> py_in ''salesforce.com'' (lower html) \<and> \<not> py_in ''force.com'' (lower html)
        \<and> \<not> py_in ''sfmc'' (lower html) \<and> \<not> py_in ''data-sf'' (lower html)"
  then show "''Salesforce'' \<notin> detect_technologies html" by (simp add: salesforce_iff)
qed

text \<open>C9, witness: a script loader of HubSpot, and a bare mention of Salesforce.\<close>

theorem detect_technologies_examples:
  "''HubSpot'' \<in> detect_technologies ''<script src=//js.hs-scripts.com/7.js>''
   \<and> ''Salesforce'' \<notin> detect_technologies ''We love Salesforce''"
proof -
  have a: "py_in ''hs-scripts.com'' ''<script src=//js.hs-scripts.com/7.js>''" by simp
  have b: "py_in ''salesforce'' (lower ''We love Salesforce'')
        \<and> \<not> py_in ''salesforce.com'' (lower ''We love Salesforce'')
        \<and> \<not> py_in ''force.com'' (lower ''We love Salesforce'')
        \<and> \<not> py_in ''sfmc'' (lower ''We love Salesforce'')
        \<and> \<not> py_in ''data-sf'' (lower ''We love Salesforce'')"
    by (simp add: lower_def lower_char_def)
  show ?thesis
    using a b detect_technologies_hubspot_salesforce[of "''<script src=//js.hs-scripts.com/7.js>''"]
      detect_technologies_hubspot_salesforce[of "''We love Salesforce''"]
    by blast
qed

section \<open>Social links: claims\<close>

lemma social_step_lookup:
  "map_of (social_step acc l) p = (if platform_of l = Some p then Some l else map_of acc p)"
  by (auto simp: social_step_def platform_of_def Let_def update_conv)

lemma foldl_social_lookup:
  "map_of (foldl social_step acc anchors) p =
     (case filter (\<lambda>l. platform_of l = Some p) anchors of
        [] \<Rightarrow> map_of acc p
      | l # ls \<Rightarrow> Some (last (l # ls)))"
proof (induction anchors arbitrary: acc)
  case Nil
  then show ?case by simp
next
  case (Cons a anchors)
  show ?case
    by (simp add: Cons.IH social_step_lookup split: list.splits)
qed

text \<open>
  C3 (as the code has it). Each matching anchor overwrites the entry of its platform, so the
  link stored for a platform is the last anchor, in document order, that the \<open>if\<close>/\<open>elif\<close>
  chain files under that platform; a platform with no such anchor has no entry.
\<close>

theorem scan_social_links_keeps_last:
  "map_of (scan_social_links anchors) p =
     (case filter (\<lambda>l. platform_of l = Some p) anchors of
        [] \<Rightarrow> None
      | l # ls \<Rightarrow> Some (last (l # ls)))"
  by (simp add: scan_social_links_def foldl_social_lookup split: list.splits)

text \<open>
  C3, counterexample: of two LinkedIn anchors the second is stored, not the first.
\<close>

theorem scan_social_links_second_wins:
  "map_of (scan_social_links [''https://linkedin.com/company/acme'', ''https://www.linkedin.com/in/bob''])
      ''linkedin'' = Some ''https://www.linkedin.com/in/bob''
   \<and> map_of (scan_social_links [''https://linkedin.com/company/acme'', ''https://www.linkedin.com/in/bob''])
      ''linkedin'' \<noteq> Some ''https://linkedin.com/company/acme''"
  by (simp add: scan_social_links_def social_step_def lower_def lower_char_def)

section \<open>Content sections: claims\<close>

lemma strip_Nil: "strip [] = []"
  by (simp add: strip_def)

lemma clean_step_lookup:
  "map_of (clean_step acc (k, c)) key =
     (if key = k \<and> 20 < length (strip c) then Some (truncate_section c) else map_of acc key)"
  by (auto simp: clean_step_def update_conv strip_Nil)

lemma foldl_clean_lookup:
  "distinct (map fst xs) \<Longrightarrow>
   map_of (foldl clean_step acc xs) key =
     (case map_of xs key of
        None \<Rightarrow> map_of acc key
      | Some c \<Rightarrow> if 20 < length (strip c) then Some (truncate_section c) else map_of acc key)"
proof (induction xs arbitrary: acc key)
  case Nil
  then show ?case by simp
next
  case (Cons x xs)
  obtain k c where x: "x = (k, c)" by (cases x)
  from Cons.prems x have d: "distinct (map fst xs)" and nk: "k \<notin> fst ` set xs" by auto
  from nk have none: "map_of xs k = None" by (simp add: map_of_eq_None_iff)
  show ?case
  proof (cases "key = k")
    case True
    with none show ?thesis by (simp add: x Cons.IH[OF d] clean_step_lookup)
  next
    case False
    then show ?thesis by (simp add: x Cons.IH[OF d] clean_step_lookup split: option.splits)
  qed
qed

lemma store_section_lookup:
  "map_of (store_section key found xs) k =
     (case found of None \<Rightarrow> map_of xs k | Some t \<Rightarrow> if k = key then Some (strip t) else map_of xs k)"
  by (simp add: store_section_def update_conv split: option.splits)

lemma store_section_distinct:
  "distinct (map fst xs) \<Longrightarrow> distinct (map fst (store_section key found xs))"
  by (simp add: store_section_def distinct_update split: option.splits)

lemma first_match_found:
  "first_match sel ss = Inr (Some t) \<Longrightarrow> \<exists>s. sel s = Inr (Some t)"
  by (induction ss) (auto split: sum.splits option.splits)

lemma first_match_try_found:
  "first_match_try sel ss = Some t \<Longrightarrow> \<exists>s. sel s = Inr (Some t)"
  by (induction ss) (auto split: sum.splits option.splits)

lemma first_match_team_found:
  "first_match_team sel ss = Inr (Some t) \<Longrightarrow> \<exists>s. sel s = Inr (Some t)"
  by (induction ss) (auto split: sum.splits option.splits if_splits)

lemma collect_sections_distinct:
  "collect_sections sel = Inr sections \<Longrightarrow> distinct (map fst sections)"
  unfolding collect_sections_def Let_def
  by (auto split: sum.splits intro!: store_section_distinct)

lemma store_section_cases:
  "map_of (store_section key found xs) k = Some c \<Longrightarrow>
     (\<exists>t. found = Some t \<and> c = strip t) \<or> map_of xs k = Some c"
  by (auto simp: store_section_lookup split: option.splits if_splits)

lemma collect_sections_found:
  assumes "collect_sections sel = Inr sections" and "map_of sections key = Some content"
  shows "\<exists>s t. sel s = Inr (Some t) \<and> content = strip t"
proof -
  from assms(1) obtain hero products pricing team contact where
    h: "first_match sel hero_selectors = Inr hero"
    and p: "first_match sel product_selectors = Inr products"
    and pr: "first_match sel pricing_selectors = Inr pricing"
    and tm: "first_match_team sel team_selectors = Inr team"
    and ct: "first_match sel contact_selectors = Inr contact"
    and s: "sections = store_section ''contact_section'' contact
                (store_section ''team_section'' team
                (store_section ''pricing_section'' pricing
                (store_section ''products_services'' products
                (store_section ''about_section'' (first_match_try sel about_selectors)
                (store_section ''hero_section'' hero [])))))"
    unfolding collect_sections_def Let_def by (auto split: sum.splits)
  from assms(2)[unfolded s] have
    "(\<exists>t. contact = Some t \<and> content = strip t) \<or> (\<exists>t. team = Some t \<and> content = strip t)
     \<or> (\<exists>t. pricing = Some t \<and> content = strip t) \<or> (\<exists>t. products = Some t \<and> content = strip t)
     \<or> (\<exists>t. first_match_try sel about_selectors = Some t \<and> content = strip t)
     \<or> (\<exists>t. hero = Some t \<and> content = strip t)"
    by (auto dest!: store_section_cases)
  then consider t where "first_match sel contact_selectors = Inr (Some t)" "content = strip t"
    | t where "first_match_team sel team_selectors = Inr (Some t)" "content = strip t"
    | t where "first_match sel pricing_selectors = Inr (Some t)" "content = strip t"
    | t where "first_match sel product_selectors = Inr (Some t)" "content = strip t"
    | t where "first_match_try sel about_selectors = Some t" "content = strip t"
    | t where "first_match sel hero_selectors = Inr (Some t)" "content = strip t"
    using h p pr tm ct by auto
  then show ?thesis
  proof cases
    case 1 then show ?thesis using first_match_found by blast
  next
    case 2 then show ?thesis using first_match_team_found by blast
  next
    case 3 then show ?thesis using first_match_found by blast
  next
    case 4 then show ?thesis using first_match_found by blast
  next
    case 5 then show ?thesis using first_match_try_found by blast
  next
    case 6 then show ?thesis using first_match_found by blast
  qed
qed

text \<open>
  C6 (as the code has it). \<open>sections\<close> holds, per label, the stripped text of the element
  the label's selectors matched. A label is in the result exactly when that text, white
  space inside it counted, is longer than 20 characters; its excerpt is the text itself,
  or its first 2000 characters followed by the marker \<open>... [truncated]\<close> when it is longer
  than 2000.
\<close>

theorem content_sections_threshold:
  assumes "extract_content_sections sel = Inr cleaned"
  shows "\<exists>sections. collect_sections sel = Inr sections
     \<and> (\<forall>key. map_of cleaned key =
          (case map_of sections key of
             None \<Rightarrow> None
           | Some content \<Rightarrow>
               if 20 < length (strip content)
               then Some (if 2000 < length content
                          then take 2000 content @ ''... [truncated]'' else content)
               else None))
     \<and> (\<forall>key content. map_of sections key = Some content \<longrightarrow>
          (\<exists>s t. sel s = Inr (Some t) \<and> content = strip t))"
proof -
  from assms obtain sections where c: "collect_sections sel = Inr sections"
    and cl: "cleaned = clean_sections sections"
    by (auto simp: extract_content_sections_def split: sum.splits)
  have "map_of cleaned key =
          (case map_of sections key of
             None \<Rightarrow> None
           | Some content \<Rightarrow>
               if 20 < length (strip content)
               then Some (if 2000 < length content
                          then take 2000 content @ ''... [truncated]'' else content)
               else None)" for key
    unfolding cl clean_sections_def
    by (simp add: foldl_clean_lookup[OF collect_sections_distinct[OF c]] truncate_section_def
        split: option.splits)
  with c collect_sections_found[OF c] show ?thesis by blast
qed

lemmas sel_defs = hero_selectors_def about_selectors_def product_selectors_def
  pricing_selectors_def team_selectors_def contact_selectors_def attr_has_def attr_is_def dq_def

lemma page_short_about_sections:
  "collect_sections page_short_about =
     Inr [(''hero_section'', ''Welcome to Acme Robotics!''), (''about_section'', ''We make robots.'')]"
  by (simp add: collect_sections_def sel_defs page_short_about_def store_section_def strip_def
      is_space_def lower_def lower_char_def)

lemma page_short_about_cleaned:
  "extract_content_sections page_short_about =
     Inr [(''hero_section'', ''Welcome to Acme Robotics!'')]"
  by (simp add: extract_content_sections_def page_short_about_sections clean_sections_def
      clean_step_def truncate_section_def strip_def is_space_def)

text \<open>
  The no-break space is white space to \<open>strip\<close>: a hero of 19 characters between two of
  them is below the threshold and is left out.
\<close>

lemma content_sections_no_break_space:
  "extract_content_sections page_nbsp_hero = Inr []"
  by (simp add: extract_content_sections_def collect_sections_def sel_defs page_nbsp_hero_def
      store_section_def clean_sections_def clean_step_def truncate_section_def strip_def
      is_space_def lower_def lower_char_def)

text \<open>
  C6, witness: a hero of 25 characters is kept as it is, an about section of 15 characters
  is left out.
\<close>

theorem content_sections_examples:
  "extract_content_sections page_short_about =
     Inr [(''hero_section'', ''Welcome to Acme Robotics!'')]
   \<and> length ''Welcome to Acme Robotics!'' = 25 \<and> length ''We make robots.'' = 15
   \<and> (\<exists>sections. collect_sections page_short_about = Inr sections
     \<and> (\<forall>key. map_of [(''hero_section'', ''Welcome to Acme Robotics!'')] key =
          (case map_of sections key of
             None \<Rightarrow> None
           | Some content \<Rightarrow>
               if 20 < length (strip content)
               then Some (if 2000 < length content
                          then take 2000 content @ ''... [truncated]'' else content)
               else None))
     \<and> (\<forall>key content. map_of sections key = Some content \<longrightarrow>
          (\<exists>s t. page_short_about s = Inr (Some t) \<and> content = strip t)))"
  using page_short_about_cleaned content_sections_threshold[OF page_short_about_cleaned]
  by simp

text \<open>
  C6, counterexample: a hero text of two letters kept apart by twenty blanks is kept,
  though it has only two characters that are not white space.
\<close>

theorem content_sections_blank_hero:
  "extract_content_sections page_blank_hero =
     Inr [(''hero_section'', ''a'' @ replicate 20 (CHR '' '') @ ''b'')]
   \<and> length (filter (\<lambda>c. \<not> is_space c) (''a'' @ replicate 20 (CHR '' '') @ ''b'')) = 2"
  by (simp add: extract_content_sections_def collect_sections_def sel_defs page_blank_hero_def
      store_section_def clean_sections_def clean_step_def truncate_section_def strip_def
      is_space_def lower_def lower_char_def eval_nat_numeral)

section \<open>Fetch strategies: claims\<close>

lemma wait_exponential_bounds: "lo \<le> hi \<Longrightarrow> lo \<le> wait_exponential m lo hi k \<and> wait_exponential m lo hi k \<le> hi"
  by (auto simp: wait_exponential_def)

lemma truncate_html_take: "truncate_html n html = take n html"
  by (simp add: truncate_html_def)

text \<open>
  C4 (as the code has it). A response whose status is not 200 makes the lightweight fetch
  fail with a \<open>ClientError\<close> whose message carries the status code and the reason; this
  includes the other 2xx codes. A response with status 200 whose body can be read gives
  that body, cut to \<open>max_content_length\<close> characters, and no error; the fetch fails on a
  response exactly when the status is not 200 or reading the body raises.
\<close>

theorem aiohttp_body_status:
  "(status response \<noteq> 200 \<longrightarrow>
      aiohttp_body cfg (Inr response)
        = Inl (Raised ClientError (''HTTP '' @ str_nat (status response) @ '': '' @ reason response)))
   \<and> (status response = 200 \<longrightarrow>
        (\<forall>text. body_text response = Inr text \<longrightarrow>
           (\<exists>info. aiohttp_body cfg (Inr response) = Inr (take (max_content_length cfg) text, info))))
   \<and> (isl (aiohttp_body cfg (Inr response)) \<longleftrightarrow> status response \<noteq> 200 \<or> isl (body_text response))"
  by (auto simp: aiohttp_body_def truncate_html_take Let_def split: sum.splits)

text \<open>C4, witness: a 404, and a 200 whose body is cut to six characters.\<close>

theorem aiohttp_body_examples:
  "aiohttp_body default_config (Inr (error_response 404 ''Not Found''))
       = Inl (Raised ClientError ''HTTP 404: Not Found'')
   \<and> (\<exists>info. aiohttp_body (default_config\<lparr>max_content_length := 6\<rparr>) (Inr (ok_response ''<html>hello</html>''))
         = Inr (''<html>'', info))"
  using aiohttp_body_status[of "error_response 404 ''Not Found''" default_config]
    aiohttp_body_status[of "ok_response ''<html>hello</html>''" "default_config\<lparr>max_content_length := 6\<rparr>"]
  by (simp add: error_response_def ok_response_def default_config_def)

text \<open>C4, counterexample: a 201 response with a body is an error, not a returned body.\<close>

theorem aiohttp_body_created:
  "aiohttp_body default_config
      (Inr \<lparr>status = 201, reason = ''Created'', body_text = Inr ''<html>made</html>'',
            content_type = Some ''text/html''\<rparr>)
     = Inl (Raised ClientError ''HTTP 201: Created'')"
  by (simp add: aiohttp_body_def)

lemma scrape_with_aiohttp_three:
  "scrape_with_aiohttp cfg net url st =
     (case aiohttp_once cfg net url st of
        (Inr v, s1) \<Rightarrow> (Inr v, s1)
      | (Inl e1, s1) \<Rightarrow>
          if \<not> retryable e1 then (Inl e1, s1)
          else (case aiohttp_once cfg net url (s1\<lparr>sleeps := sleeps s1 @ [2]\<rparr>) of
                  (Inr v, s2) \<Rightarrow> (Inr v, s2)
                | (Inl e2, s2) \<Rightarrow>
                    if \<not> retryable e2 then (Inl e2, s2)
                    else (case aiohttp_once cfg net url (s2\<lparr>sleeps := sleeps s2 @ [2]\<rparr>) of
                            (Inr v, s3) \<Rightarrow> (Inr v, s3)
                          | (Inl e3, s3) \<Rightarrow>
                              if \<not> retryable e3 then (Inl e3, s3) else (Inl (RetryError e3), s3))))"
proof -
  have w: "wait_exponential (Suc 0) 2 10 (Suc 0) = 2" "wait_exponential (Suc 0) 2 10 (Suc (Suc 0)) = 2"
    by (simp_all add: wait_exponential_def)
  have "retrying 2 1 f st = retrying (Suc (Suc 0)) (Suc 0) f st" for f :: "io_state \<Rightarrow> (exn + fetched) \<times> io_state"
    by (simp add: numeral_2_eq_2)
  then show ?thesis
    unfolding scrape_with_aiohttp_def
    by (simp add: w split: prod.splits sum.splits)
qed

text \<open>
  C2 (as the code has it). One call of the lightweight fetch makes \<open>n\<close> requests, between
  1 and 3; it sleeps after each attempt but the last, the delay after attempt \<open>k\<close> being
  \<open>wait_exponential 1 2 10 k\<close>, which lies between 2 and 10 seconds; every attempt before
  the last failed with a \<open>ClientError\<close> or a time-out; a failure of another class ends the
  call at once and is raised unchanged, and a third network failure is raised as
  \<open>RetryError\<close>. One call of the browser fetch launches one browser and never sleeps:
  it is not retried.
\<close>

theorem retry_policy:
  "(scrape_with_aiohttp cfg net url st = (res, st') \<longrightarrow>
      (\<exists>n. 1 \<le> n \<and> n \<le> 3
         \<and> requests st' = requests st + n
         \<and> sleeps st' = sleeps st @ map (wait_exponential 1 2 10) [1..<n]
         \<and> (\<forall>d \<in> set (map (wait_exponential 1 2 10) [1..<n]). 2 \<le> d \<and> d \<le> 10)
         \<and> (\<forall>i<n - 1. \<exists>e. aiohttp_body cfg (http_get net (requests st + i) url) = Inl e
                            \<and> retryable e)
         \<and> res = (case aiohttp_body cfg (http_get net (requests st + (n - 1)) url) of
                     Inr v \<Rightarrow> Inr v
                   | Inl e \<Rightarrow> if retryable e then Inl (RetryError e) else Inl e)
         \<and> (n < 3 \<longrightarrow>
              (\<forall>e. aiohttp_body cfg (http_get net (requests st + (n - 1)) url) = Inl e
                     \<longrightarrow> \<not> retryable e))))
   \<and> (scrape_with_playwright cfg net url st = (res, st') \<longrightarrow>
        launches st' = Suc (launches st) \<and> sleeps st' = sleeps st \<and> requests st' = requests st
        \<and> res = (case launch (browse net (launches st) url) of
                    Some e \<Rightarrow> Inl e
                  | None \<Rightarrow> playwright_page cfg (browse net (launches st) url)))"
proof (rule conjI; rule impI)
  assume a: "scrape_with_aiohttp cfg net url st = (res, st')"
  let ?a = "\<lambda>i. aiohttp_body cfg (http_get net (requests st + i) url)"
  have w: "wait_exponential (Suc 0) 2 10 (Suc 0) = 2" "wait_exponential (Suc 0) 2 10 2 = 2"
    by (simp_all add: wait_exponential_def)
  have u1: "[Suc 0..<Suc 0] = []" and u2: "[Suc 0..<2] = [Suc 0]" and u3: "[Suc 0..<3] = [Suc 0, 2]"
    by (simp_all add: upt_rec)
  note r = a[unfolded scrape_with_aiohttp_three aiohttp_once_def]
  consider
      (one) "\<forall>e. ?a 0 = Inl e \<longrightarrow> \<not> retryable e"
    | (two) e1 where "?a 0 = Inl e1" "retryable e1" "\<forall>e. ?a 1 = Inl e \<longrightarrow> \<not> retryable e"
    | (three) e1 e2 where "?a 0 = Inl e1" "retryable e1" "?a 1 = Inl e2" "retryable e2"
    by (cases "?a 0"; cases "?a 1") auto
  then show "\<exists>n. 1 \<le> n \<and> n \<le> 3
         \<and> requests st' = requests st + n
         \<and> sleeps st' = sleeps st @ map (wait_exponential 1 2 10) [1..<n]
         \<and> (\<forall>d \<in> set (map (wait_exponential 1 2 10) [1..<n]). 2 \<le> d \<and> d \<le> 10)
         \<and> (\<forall>i<n - 1. \<exists>e. ?a i = Inl e \<and> retryable e)
         \<and> res = (case ?a (n - 1) of
                     Inr v \<Rightarrow> Inr v
                   | Inl e \<Rightarrow> if retryable e then Inl (RetryError e) else Inl e)
         \<and> (n < 3 \<longrightarrow> (\<forall>e. ?a (n - 1) = Inl e \<longrightarrow> \<not> retryable e))"
  proof cases
    case one
    with r show ?thesis
      by (intro exI[of _ 1]) (auto simp: u1 split: sum.splits if_splits)
  next
    case two
    with r show ?thesis
      by (intro exI[of _ 2]) (auto simp: u2 w split: sum.splits if_splits)
  next
    case three
    have lt: "\<And>i::nat. i < 2 \<longleftrightarrow> i = 0 \<or> i = 1" by auto
    from three r show ?thesis
      by (intro exI[of _ 3]) (auto simp: u3 w lt split: sum.splits if_splits)
  qed
next
  assume "scrape_with_playwright cfg net url st = (res, st')"
  then show "launches st' = Suc (launches st) \<and> sleeps st' = sleeps st \<and> requests st' = requests st
        \<and> res = (case launch (browse net (launches st) url) of
                    Some e \<Rightarrow> Inl e
                  | None \<Rightarrow> playwright_page cfg (browse net (launches st) url))"
    by (auto simp: scrape_with_playwright_def Let_def split: option.splits)
qed

lemma flaky_aiohttp:
  "scrape_with_aiohttp default_config net_flaky ''https://example.com'' io_start
     = (Inr (''<html>hello</html>'',
             [(''method'', Str ''aiohttp''), (''status_code'', Num 200),
              (''content_length'', Num 18), (''content_type'', Str ''text/html'')]),
        \<lparr>requests = 2, launches = 0, closes = 0, sleeps = [2]\<rparr>)"
  by (simp add: scrape_with_aiohttp_three aiohttp_once_def aiohttp_body_def
      net_flaky_def io_start_def error_response_def ok_response_def retryable_def
      truncate_html_def default_config_def)

lemma flaky_playwright:
  "scrape_with_playwright default_config net_flaky ''https://example.com'' io_start
     = (Inl (Raised PlaywrightTimeoutError ''Timeout 30000ms exceeded.''),
        \<lparr>requests = 0, launches = 1, closes = 1, sleeps = []\<rparr>)"
  by (simp add: scrape_with_playwright_def playwright_page_def net_flaky_def io_start_def
      slow_browser_def is_playwright_timeout_def)

text \<open>
  C2, witness: on \<open>net_flaky\<close> the lightweight fetch meets a 503, sleeps 2 seconds and
  succeeds at its second request; the browser fetch launches one browser.
\<close>

theorem retry_policy_examples:
  "scrape_with_aiohttp default_config net_flaky ''https://example.com'' io_start
     = (Inr (''<html>hello</html>'',
             [(''method'', Str ''aiohttp''), (''status_code'', Num 200),
              (''content_length'', Num 18), (''content_type'', Str ''text/html'')]),
        \<lparr>requests = 2, launches = 0, closes = 0, sleeps = [2]\<rparr>)
   \<and> (\<exists>n. 1 \<le> n \<and> n \<le> 3 \<and> (2::nat) = requests io_start + n
        \<and> [2] = sleeps io_start @ map (wait_exponential 1 2 10) [1..<n])
   \<and> launches (snd (scrape_with_playwright default_config net_flaky ''https://example.com'' io_start))
        = Suc (launches io_start)"
proof -
  from retry_policy[of default_config net_flaky "''https://example.com''" io_start
      "fst (scrape_with_aiohttp default_config net_flaky ''https://example.com'' io_start)"
      "snd (scrape_with_aiohttp default_config net_flaky ''https://example.com'' io_start)"]
  have "\<exists>n. 1 \<le> n \<and> n \<le> 3 \<and> (2::nat) = requests io_start + n
        \<and> [2] = sleeps io_start @ map (wait_exponential 1 2 10) [1..<n]"
    by (simp add: flaky_aiohttp) blast
  moreover from retry_policy[of default_config net_flaky "''https://example.com''" io_start
      "fst (scrape_with_playwright default_config net_flaky ''https://example.com'' io_start)"
      "snd (scrape_with_playwright default_config net_flaky ''https://example.com'' io_start)"]
  have "launches (snd (scrape_with_playwright default_config net_flaky ''https://example.com'' io_start))
        = Suc (launches io_start)"
    by simp
  ultimately show ?thesis using flaky_aiohttp by simp
qed

text \<open>
  C2, counterexample: the browser fetch times out and gives up after one launch, without
  sleeping, although a second launch would have got the page.
\<close>

theorem playwright_not_retried:
  "scrape_with_playwright default_config net_flaky ''https://example.com'' io_start
     = (Inl (Raised PlaywrightTimeoutError ''Timeout 30000ms exceeded.''),
        \<lparr>requests = 0, launches = 1, closes = 1, sleeps = []\<rparr>)
   \<and> fst (scrape_with_playwright default_config net_flaky ''https://example.com''
            \<lparr>requests = 0, launches = 1, closes = 1, sleeps = []\<rparr>)
     = Inr (''<html>hello</html>'',
            [(''method'', Str ''playwright''), (''content_length'', Num 18),
             (''page_title'', Str ''Acme'')])"
  by (simp add: scrape_with_playwright_def playwright_page_def net_flaky_def io_start_def
      slow_browser_def good_browser_def is_playwright_timeout_def truncate_html_def
      default_config_def)

section \<open>Fetch orchestrator: claims\<close>







lemma extract_structured_data_url:
  "extract_structured_data lib html u = Inr d \<Longrightarrow> doc_url d = u"
  by (auto simp: extract_structured_data_def split: sum.splits)

lemma method_aiohttp_raises:
  "scrape_with_aiohttp cfg net (normalized_url loc) st = (Inl e, st1) \<Longrightarrow>
     method_aiohttp cfg net loc st = (record_error (''aiohttp: '' @ str_exn e) loc, st1)"
  by (simp add: method_aiohttp_def)

lemma method_aiohttp_returns:
  "scrape_with_aiohttp cfg net (normalized_url loc) st = (Inr (h, i), st1) \<Longrightarrow>
     method_aiohttp cfg net loc st
       = (loc\<lparr>html_content := Some h, scraping_method_local := Some ''aiohttp''\<rparr>, st1)"
  by (simp add: method_aiohttp_def)

lemma method_playwright_raises:
  "falsy (html_content loc) \<Longrightarrow>
   scrape_with_playwright cfg net (normalized_url loc) st = (Inl e, st1) \<Longrightarrow>
     method_playwright cfg net loc st = (record_error (''playwright: '' @ str_exn e) loc, st1)"
  by (simp add: method_playwright_def)

lemma method_playwright_returns:
  "falsy (html_content loc) \<Longrightarrow>
   scrape_with_playwright cfg net (normalized_url loc) st = (Inr (h, i), st1) \<Longrightarrow>
     method_playwright cfg net loc st
       = (loc\<lparr>html_content := Some h, scraping_method_local := Some ''playwright''\<rparr>, st1)"
  by (simp add: method_playwright_def)

text \<open>
  C5 (as the code has it). When both strategies raise on the normalised URL and the
  lightweight fetch then returns a non-empty body for a variation (the first one, or the
  second after the first raised), and the extraction of that body does not raise, the
  session record has the method \<open>aiohttp_variation\<close> and \<open>scraping_success = True\<close>, and the
  document's URL is the winning variation.
\<close>

theorem scrape_website_variation_wins:
  "scrape_with_aiohttp cfg net (normalize_url url) st = (Inl e1, st1)
   \<and> scrape_with_playwright cfg net (normalize_url url) st1 = (Inl e2, st2)
   \<and> generate_url_variations (parse_url lib) (normalize_url url) = Inr [v1, v2]
   \<longrightarrow>
   (scrape_with_aiohttp cfg net v1 st2 = (Inr (h, i), st3) \<and> h \<noteq> []
      \<and> extract_structured_data lib h v1 = Inr d
      \<longrightarrow> scrape_website cfg net lib url st
            = ((d, \<lparr>scraping_method = Some ''aiohttp_variation'', scraping_success = True,
                    content_length = length h,
                    errors_encountered = [''aiohttp: '' @ str_exn e1,
                                          ''playwright: '' @ str_exn e2]\<rparr>), st3)
          \<and> doc_url d = v1)
   \<and> (scrape_with_aiohttp cfg net v1 st2 = (Inl e3, st3)
      \<and> scrape_with_aiohttp cfg net v2 st3 = (Inr (h, i), st4) \<and> h \<noteq> []
      \<and> extract_structured_data lib h v2 = Inr d
      \<longrightarrow> scrape_website cfg net lib url st
            = ((d, \<lparr>scraping_method = Some ''aiohttp_variation'', scraping_success = True,
                    content_length = length h,
                    errors_encountered = [''aiohttp: '' @ str_exn e1,
                                          ''playwright: '' @ str_exn e2]\<rparr>), st4)
          \<and> doc_url d = v2)"
proof (intro impI, elim conjE)
  assume a1: "scrape_with_aiohttp cfg net (normalize_url url) st = (Inl e1, st1)"
    and a2: "scrape_with_playwright cfg net (normalize_url url) st1 = (Inl e2, st2)"
    and g: "generate_url_variations (parse_url lib) (normalize_url url) = Inr [v1, v2]"
  let ?loc0 = "\<lparr>html_content = None, scraping_method_local = None,
                  normalized_url = normalize_url url,
                  metadata = \<lparr>scraping_method = Some ''unknown'', scraping_success = False,
                              content_length = 0, errors_encountered = []\<rparr>\<rparr>"
  define x1 where "x1 = ''aiohttp: '' @ str_exn e1"
  define x2 where "x2 = ''playwright: '' @ str_exn e2"
  let ?loc2 = "\<lparr>html_content = None, scraping_method_local = None,
                  normalized_url = normalize_url url,
                  metadata = \<lparr>scraping_method = Some ''unknown'', scraping_success = False,
                              content_length = 0, errors_encountered = [x1, x2]\<rparr>\<rparr>"
  have m1: "method_aiohttp cfg net ?loc0 st = (record_error x1 ?loc0, st1)"
    using a1 by (simp add: method_aiohttp_def x1_def)
  have m2: "method_playwright cfg net (record_error x1 ?loc0) st1 = (?loc2, st2)"
    using a2 by (simp add: method_playwright_def falsy_def record_error_def x2_def)
  have sw: "scrape_website cfg net lib url st
      = (case try_variations cfg net [v1, v2] ?loc2 st2 of
           (loc3, s3) \<Rightarrow> (scrape_finish lib loc3, s3))"
    by (simp add: scrape_website_def m1 m2 method_variations_def falsy_def g split: prod.splits)
  show "(scrape_with_aiohttp cfg net v1 st2 = (Inr (h, i), st3) \<and> h \<noteq> []
      \<and> extract_structured_data lib h v1 = Inr d
      \<longrightarrow> scrape_website cfg net lib url st
            = ((d, \<lparr>scraping_method = Some ''aiohttp_variation'', scraping_success = True,
                    content_length = length h,
                    errors_encountered = [''aiohttp: '' @ str_exn e1,
                                          ''playwright: '' @ str_exn e2]\<rparr>), st3)
          \<and> doc_url d = v1)
   \<and> (scrape_with_aiohttp cfg net v1 st2 = (Inl e3, st3)
      \<and> scrape_with_aiohttp cfg net v2 st3 = (Inr (h, i), st4) \<and> h \<noteq> []
      \<and> extract_structured_data lib h v2 = Inr d
      \<longrightarrow> scrape_website cfg net lib url st
            = ((d, \<lparr>scraping_method = Some ''aiohttp_variation'', scraping_success = True,
                    content_length = length h,
                    errors_encountered = [''aiohttp: '' @ str_exn e1,
                                          ''playwright: '' @ str_exn e2]\<rparr>), st4)
          \<and> doc_url d = v2)"
    unfolding sw
    by (auto simp: scrape_finish_def x1_def x2_def dest: extract_structured_data_url)
qed

text \<open>
  C10. Content is tested by truthiness, not by whether a fetch raised. Let \<open>r1\<close> be what the
  lightweight fetch of the normalised URL gives and \<open>r2\<close> what the browser fetch gives
  after it; \<open>errs\<close> are the errors of those of the two that raised. A non-empty body of
  the lightweight fetch wins at once, and no browser is launched. Otherwise, whether the
  lightweight fetch raised or returned an empty body, a non-empty result of the browser
  fetch wins with the method \<open>playwright\<close>. When neither gives content (each raised or
  returned an empty body), the variations are generated and fetched in turn: the first
  fetch that returns ends the loop; its non-empty body wins with the method
  \<open>aiohttp_variation\<close>, and its empty body ends the call with the empty document of that
  variation, \<open>scraping_success = False\<close> and the error \<open>All scraping methods failed\<close>,
  even when no fetch raised. The call ends in the same failure, with the normalised URL,
  when both variation fetches raise, and with the generator's error when the variations
  cannot be generated.
\<close>

theorem scrape_website_empty_body:
  "scrape_with_aiohttp cfg net (normalize_url url) st = (r1, st1)
   \<and> scrape_with_playwright cfg net (normalize_url url) st1 = (r2, st2)
   \<longrightarrow>
   (let errs = (case r1 of Inl e \<Rightarrow> [''aiohttp: '' @ str_exn e] | Inr got \<Rightarrow> [])
               @ (case r2 of Inl e \<Rightarrow> [''playwright: '' @ str_exn e] | Inr got \<Rightarrow> [])
    in
      (r1 = Inr (h, i) \<and> h \<noteq> [] \<and> extract_structured_data lib h (normalize_url url) = Inr d
         \<longrightarrow> scrape_website cfg net lib url st
               = ((d, \<lparr>scraping_method = Some ''aiohttp'', scraping_success = True,
                       content_length = length h, errors_encountered = []\<rparr>), st1))
    \<and> ((\<forall>h1 i1. r1 = Inr (h1, i1) \<longrightarrow> h1 = [])
         \<and> r2 = Inr (h, i) \<and> h \<noteq> []
         \<and> extract_structured_data lib h (normalize_url url) = Inr d
         \<longrightarrow> scrape_website cfg net lib url st
               = ((d, \<lparr>scraping_method = Some ''playwright'', scraping_success = True,
                       content_length = length h, errors_encountered = errs\<rparr>), st2))
    \<and> ((\<forall>h1 i1. r1 = Inr (h1, i1) \<longrightarrow> h1 = []) \<and> (\<forall>h2 i2. r2 = Inr (h2, i2) \<longrightarrow> h2 = [])
         \<longrightarrow>
           (generate_url_variations (parse_url lib) (normalize_url url) = Inl e
              \<longrightarrow> scrape_website cfg net lib url st
                    = ((empty_document (normalize_url url),
                        \<lparr>scraping_method = Some ''unknown'', scraping_success = False,
                         content_length = 0,
                         errors_encountered = errs @ [''final_error: '' @ str_exn e]\<rparr>), st2))
         \<and> (generate_url_variations (parse_url lib) (normalize_url url) = Inr [v1, v2]
              \<and> scrape_with_aiohttp cfg net v1 st2 = (r3, st3)
              \<longrightarrow>
                (r3 = Inr (h, i) \<and> h \<noteq> [] \<and> extract_structured_data lib h v1 = Inr d
                   \<longrightarrow> scrape_website cfg net lib url st
                         = ((d, \<lparr>scraping_method = Some ''aiohttp_variation'',
                                 scraping_success = True, content_length = length h,
                                 errors_encountered = errs\<rparr>), st3))
              \<and> (r3 = Inr ([], i)
                   \<longrightarrow> scrape_website cfg net lib url st
                         = ((empty_document v1,
                             \<lparr>scraping_method = Some ''unknown'', scraping_success = False,
                              content_length = 0,
                              errors_encountered =
                                errs @ [''final_error: All scraping methods failed'']\<rparr>), st3))
              \<and> (r3 = Inl e3 \<and> scrape_with_aiohttp cfg net v2 st3 = (r4, st4)
                   \<longrightarrow>
                     (r4 = Inr (h, i) \<and> h \<noteq> [] \<and> extract_structured_data lib h v2 = Inr d
                        \<longrightarrow> scrape_website cfg net lib url st
                              = ((d, \<lparr>scraping_method = Some ''aiohttp_variation'',
                                      scraping_success = True, content_length = length h,
                                      errors_encountered = errs\<rparr>), st4))
                   \<and> (r4 = Inr ([], i)
                        \<longrightarrow> scrape_website cfg net lib url st
                              = ((empty_document v2,
                                  \<lparr>scraping_method = Some ''unknown'', scraping_success = False,
                                   content_length = 0,
                                   errors_encountered =
                                     errs @ [''final_error: All scraping methods failed'']\<rparr>),
                                 st4))
                   \<and> (r4 = Inl e4
                        \<longrightarrow> scrape_website cfg net lib url st
                              = ((empty_document (normalize_url url),
                                  \<lparr>scraping_method = Some ''unknown'', scraping_success = False,
                                   content_length = 0,
                                   errors_encountered =
                                     errs @ [''final_error: All scraping methods failed'']\<rparr>),
                                 st4))))))"
  unfolding scrape_website_def Let_def method_aiohttp_def method_playwright_def
    method_variations_def
  by (cases r1; cases r2; cases r3; cases r4)
     (auto simp: falsy_def record_error_def scrape_finish_def scrape_failed_def)

lemmas url_defs = normalize_url_def has_scheme_def startswith_def rstrip_slash_def
  generate_url_variations_def urlparse_std_def split_scheme_def netloc_of_def hostname_of_def
  is_alpha_def is_scheme_char_def lower_def lower_char_def

lemmas fetch_defs = scrape_with_aiohttp_three aiohttp_once_def aiohttp_body_def retryable_def
  truncate_html_def scrape_with_playwright_def playwright_page_def is_playwright_timeout_def
  default_config_def io_start_def ok_response_def good_browser_def no_browser_def refused_def

lemma example_normalized: "normalize_url ''example.com'' = ''https://example.com''"
  by (simp add: url_defs)

lemma example_variations:
  "generate_url_variations (parse_url text_only_view) ''https://example.com''
     = Inr [''https://www.example.com'', ''http://example.com'']"
  by (simp add: url_defs text_only_view_def)

lemma plain_page:
  "extract_structured_data text_only_view ''<html>hello</html>'' u
     = Inr \<lparr>doc_url = u, html_text = ''<html>hello</html>'', meta_data = [],
            structured_data = [], content_sections = [], technology_stack = {},
            contact_info = \<lparr>emails = None, phones = None, social_media = None\<rparr>,
            navigation_structure = {}\<rparr>"
  by (simp add: extract_structured_data_def text_only_view_def extract_content_sections_def
      collect_sections_def sel_defs store_section_def clean_sections_def
      extract_contact_information_def scan_social_links_def detect_technologies_def
      technologies_found_def hit_def lower_def lower_char_def)





lemma www_aiohttp_miss:
  "u \<noteq> ''https://www.example.com'' \<Longrightarrow>
   scrape_with_aiohttp default_config (net_www_only page) u
       \<lparr>requests = r, launches = l, closes = c, sleeps = s\<rparr>
     = (Inl (RetryError (Raised ClientError ''Cannot connect to host'')),
        \<lparr>requests = r + 3, launches = l, closes = c, sleeps = s @ [2, 2]\<rparr>)"
  by (simp add: fetch_defs net_www_only_def)

lemma www_aiohttp_hit:
  "length page \<le> 500000 \<Longrightarrow>
   scrape_with_aiohttp default_config (net_www_only page) ''https://www.example.com''
       \<lparr>requests = r, launches = l, closes = c, sleeps = s\<rparr>
     = (Inr (page, [(''method'', Str ''aiohttp''), (''status_code'', Num 200),
                    (''content_length'', Num (length page)),
                    (''content_type'', Str ''text/html'')]),
        \<lparr>requests = r + 1, launches = l, closes = c, sleeps = s\<rparr>)"
  by (simp add: fetch_defs net_www_only_def)

lemma www_playwright:
  "scrape_with_playwright default_config (net_www_only page) u
       \<lparr>requests = r, launches = l, closes = c, sleeps = s\<rparr>
     = (Inl (Raised OtherError ''Executable does not exist''),
        \<lparr>requests = r, launches = l + 1, closes = c, sleeps = s\<rparr>)"
  by (simp add: fetch_defs net_www_only_def)

text \<open>
  C5, witness: only the \<open>www.\<close> host answers; the document carries its URL and the method
  is \<open>aiohttp_variation\<close>.
\<close>

theorem scrape_website_variation_example:
  "scrape_website default_config (net_www_only ''<html>hello</html>'') text_only_view
       ''example.com'' io_start
     = ((\<lparr>doc_url = ''https://www.example.com'', html_text = ''<html>hello</html>'',
          meta_data = [], structured_data = [], content_sections = [], technology_stack = {},
          contact_info = \<lparr>emails = None, phones = None, social_media = None\<rparr>,
          navigation_structure = {}\<rparr>,
         \<lparr>scraping_method = Some ''aiohttp_variation'', scraping_success = True,
          content_length = 18,
          errors_encountered =
            [''aiohttp: RetryError[<Future state=finished raised ClientError>]'',
             ''playwright: Executable does not exist'']\<rparr>),
        \<lparr>requests = 4, launches = 1, closes = 0, sleeps = [2, 2]\<rparr>)"
proof -
  let ?net = "net_www_only ''<html>hello</html>''"
  have h1: "scrape_with_aiohttp default_config ?net (normalize_url ''example.com'') io_start
      = (Inl (RetryError (Raised ClientError ''Cannot connect to host'')),
         \<lparr>requests = 3, launches = 0, closes = 0, sleeps = [2, 2]\<rparr>)"
    by (simp add: io_start_def example_normalized www_aiohttp_miss)
  have h2: "scrape_with_playwright default_config ?net (normalize_url ''example.com'')
               \<lparr>requests = 3, launches = 0, closes = 0, sleeps = [2, 2]\<rparr>
      = (Inl (Raised OtherError ''Executable does not exist''),
         \<lparr>requests = 3, launches = 1, closes = 0, sleeps = [2, 2]\<rparr>)"
    by (simp add: www_playwright)
  have h3: "generate_url_variations (parse_url text_only_view) (normalize_url ''example.com'')
      = Inr [''https://www.example.com'', ''http://example.com'']"
    by (simp add: example_normalized example_variations)
  have h4: "scrape_with_aiohttp default_config ?net ''https://www.example.com''
               \<lparr>requests = 3, launches = 1, closes = 0, sleeps = [2, 2]\<rparr>
      = (Inr (''<html>hello</html>'',
              [(''method'', Str ''aiohttp''), (''status_code'', Num 200),
               (''content_length'', Num 18), (''content_type'', Str ''text/html'')]),
         \<lparr>requests = 4, launches = 1, closes = 0, sleeps = [2, 2]\<rparr>)"
    by (simp add: www_aiohttp_hit)
  have h5: "''<html>hello</html>'' \<noteq> []" by simp
  note h6 = plain_page[of "''https://www.example.com''"]
  from scrape_website_variation_wins[of default_config ?net "''example.com''" io_start
      "RetryError (Raised ClientError ''Cannot connect to host'')"
      "\<lparr>requests = 3, launches = 0, closes = 0, sleeps = [2, 2]\<rparr>"
      "Raised OtherError ''Executable does not exist''"
      "\<lparr>requests = 3, launches = 1, closes = 0, sleeps = [2, 2]\<rparr>"
      text_only_view "''https://www.example.com''" "''http://example.com''"
      "''<html>hello</html>''"
      "[(''method'', Str ''aiohttp''), (''status_code'', Num 200),
        (''content_length'', Num 18), (''content_type'', Str ''text/html'')]"
      "\<lparr>requests = 4, launches = 1, closes = 0, sleeps = [2, 2]\<rparr>"
      "\<lparr>doc_url = ''https://www.example.com'', html_text = ''<html>hello</html>'',
          meta_data = [], structured_data = [], content_sections = [], technology_stack = {},
          contact_info = \<lparr>emails = None, phones = None, social_media = None\<rparr>,
          navigation_structure = {}\<rparr>"]
    h1 h2 h3 h4 h5 h6
  show ?thesis by simp
qed

text \<open>
  C5, counterexample: both strategies raise on the primary URL and the lightweight fetch
  of the \<open>www.\<close> variation returns, with an empty body; the method stays \<open>unknown\<close> and the
  call reports failure.
\<close>

theorem scrape_website_empty_variation:
  "fst (scrape_with_aiohttp default_config (net_www_only []) ''https://example.com'' io_start)
     = Inl (RetryError (Raised ClientError ''Cannot connect to host''))
   \<and> fst (scrape_with_playwright default_config (net_www_only []) ''https://example.com''
            \<lparr>requests = 3, launches = 0, closes = 0, sleeps = [2, 2]\<rparr>)
     = Inl (Raised OtherError ''Executable does not exist'')
   \<and> fst (scrape_with_aiohttp default_config (net_www_only []) ''https://www.example.com''
            \<lparr>requests = 3, launches = 1, closes = 0, sleeps = [2, 2]\<rparr>)
     = Inr ([], [(''method'', Str ''aiohttp''), (''status_code'', Num 200),
                 (''content_length'', Num 0), (''content_type'', Str ''text/html'')])
   \<and> scrape_website default_config (net_www_only []) text_only_view ''example.com'' io_start
     = ((empty_document ''https://www.example.com'',
         \<lparr>scraping_method = Some ''unknown'', scraping_success = False, content_length = 0,
          errors_encountered =
            [''aiohttp: RetryError[<Future state=finished raised ClientError>]'',
             ''playwright: Executable does not exist'',
             ''final_error: All scraping methods failed'']\<rparr>),
        \<lparr>requests = 4, launches = 1, closes = 0, sleeps = [2, 2]\<rparr>)"
  by (simp add: scrape_website_def method_aiohttp_def method_playwright_def
      method_variations_def falsy_def record_error_def scrape_finish_def scrape_failed_def
      example_normalized example_variations www_aiohttp_miss www_aiohttp_hit www_playwright
      io_start_def)

lemma empty_aiohttp:
  "scrape_with_aiohttp default_config net_empty u \<lparr>requests = r, launches = l, closes = c, sleeps = s\<rparr>
     = (Inr ([], [(''method'', Str ''aiohttp''), (''status_code'', Num 200),
                  (''content_length'', Num 0), (''content_type'', Str ''text/html'')]),
        \<lparr>requests = r + 1, launches = l, closes = c, sleeps = s\<rparr>)"
  by (simp add: fetch_defs net_empty_def)

lemma empty_playwright:
  "scrape_with_playwright default_config net_empty u \<lparr>requests = r, launches = l, closes = c, sleeps = s\<rparr>
     = (Inr ([], [(''method'', Str ''playwright''), (''content_length'', Num 0),
                  (''page_title'', Str ''Acme'')]),
        \<lparr>requests = r, launches = l + 1, closes = c + 1, sleeps = s\<rparr>)"
  by (simp add: fetch_defs net_empty_def)

lemma blank_aiohttp_miss:
  "u \<noteq> ''https://www.example.com'' \<Longrightarrow>
   scrape_with_aiohttp default_config (net_blank_primary page) u
       \<lparr>requests = r, launches = l, closes = c, sleeps = s\<rparr>
     = (Inr ([], [(''method'', Str ''aiohttp''), (''status_code'', Num 200),
                  (''content_length'', Num 0), (''content_type'', Str ''text/html'')]),
        \<lparr>requests = r + 1, launches = l, closes = c, sleeps = s\<rparr>)"
  by (simp add: fetch_defs net_blank_primary_def)

lemma blank_aiohttp_hit:
  "length page \<le> 500000 \<Longrightarrow>
   scrape_with_aiohttp default_config (net_blank_primary page) ''https://www.example.com''
       \<lparr>requests = r, launches = l, closes = c, sleeps = s\<rparr>
     = (Inr (page, [(''method'', Str ''aiohttp''), (''status_code'', Num 200),
                    (''content_length'', Num (length page)),
                    (''content_type'', Str ''text/html'')]),
        \<lparr>requests = r + 1, launches = l, closes = c, sleeps = s\<rparr>)"
  by (simp add: fetch_defs net_blank_primary_def)

lemma blank_playwright:
  "scrape_with_playwright default_config (net_blank_primary page) u
       \<lparr>requests = r, launches = l, closes = c, sleeps = s\<rparr>
     = (Inl (Raised OtherError ''Executable does not exist''),
        \<lparr>requests = r, launches = l + 1, closes = c, sleeps = s\<rparr>)"
  by (simp add: fetch_defs net_blank_primary_def)

text \<open>
  C10, witness: on \<open>net_empty\<close> every fetch returns an empty body and none raises; on
  \<open>net_blank_primary\<close> the lightweight fetch returns an empty body, the browser fetch
  raises, and the \<open>www.\<close> variation then wins.
\<close>

theorem scrape_website_empty_body_example:
  "scrape_website default_config net_empty text_only_view ''example.com'' io_start
     = ((empty_document ''https://www.example.com'',
         \<lparr>scraping_method = Some ''unknown'', scraping_success = False, content_length = 0,
          errors_encountered = [''final_error: All scraping methods failed'']\<rparr>),
        \<lparr>requests = 2, launches = 1, closes = 1, sleeps = []\<rparr>)
   \<and> scrape_website default_config (net_blank_primary ''<html>hello</html>'') text_only_view
        ''example.com'' io_start
     = ((\<lparr>doc_url = ''https://www.example.com'', html_text = ''<html>hello</html>'',
          meta_data = [], structured_data = [], content_sections = [], technology_stack = {},
          contact_info = \<lparr>emails = None, phones = None, social_media = None\<rparr>,
          navigation_structure = {}\<rparr>,
         \<lparr>scraping_method = Some ''aiohttp_variation'', scraping_success = True,
          content_length = 18,
          errors_encountered = [''playwright: Executable does not exist'']\<rparr>),
        \<lparr>requests = 2, launches = 1, closes = 0, sleeps = []\<rparr>)"
proof -
  let ?blank = "[(''method'', Str ''aiohttp''), (''status_code'', Num 200),
                 (''content_length'', Num 0), (''content_type'', Str ''text/html'')]"
  let ?full = "[(''method'', Str ''aiohttp''), (''status_code'', Num 200),
                (''content_length'', Num 18), (''content_type'', Str ''text/html'')]"
  let ?shown = "[(''method'', Str ''playwright''), (''content_length'', Num 0),
                 (''page_title'', Str ''Acme'')]"
  let ?net = "net_blank_primary ''<html>hello</html>''"
  have g: "generate_url_variations (parse_url text_only_view) (normalize_url ''example.com'')
      = Inr [''https://www.example.com'', ''http://example.com'']"
    by (simp add: example_normalized example_variations)
  have e1: "scrape_with_aiohttp default_config net_empty (normalize_url ''example.com'') io_start
      = (Inr ([], ?blank), \<lparr>requests = 1, launches = 0, closes = 0, sleeps = []\<rparr>)"
    by (simp add: io_start_def empty_aiohttp)
  have e2: "scrape_with_playwright default_config net_empty (normalize_url ''example.com'')
               \<lparr>requests = 1, launches = 0, closes = 0, sleeps = []\<rparr>
      = (Inr ([], ?shown), \<lparr>requests = 1, launches = 1, closes = 1, sleeps = []\<rparr>)"
    by (simp add: empty_playwright)
  have e3: "scrape_with_aiohttp default_config net_empty ''https://www.example.com''
               \<lparr>requests = 1, launches = 1, closes = 1, sleeps = []\<rparr>
      = (Inr ([], ?blank), \<lparr>requests = 2, launches = 1, closes = 1, sleeps = []\<rparr>)"
    by (simp add: empty_aiohttp)
  have first: "scrape_website default_config net_empty text_only_view ''example.com'' io_start
     = ((empty_document ''https://www.example.com'',
         \<lparr>scraping_method = Some ''unknown'', scraping_success = False, content_length = 0,
          errors_encountered = [''final_error: All scraping methods failed'']\<rparr>),
        \<lparr>requests = 2, launches = 1, closes = 1, sleeps = []\<rparr>)"
    using scrape_website_empty_body[where cfg = default_config and net = net_empty
        and url = "''example.com''" and st = io_start and lib = text_only_view
        and ?r1.0 = "Inr ([], ?blank)"
        and ?st1.0 = "\<lparr>requests = 1, launches = 0, closes = 0, sleeps = []\<rparr>"
        and ?r2.0 = "Inr ([], ?shown)"
        and ?st2.0 = "\<lparr>requests = 1, launches = 1, closes = 1, sleeps = []\<rparr>"
        and ?v1.0 = "''https://www.example.com''" and ?v2.0 = "''http://example.com''"
        and ?r3.0 = "Inr ([], ?blank)"
        and ?st3.0 = "\<lparr>requests = 2, launches = 1, closes = 1, sleeps = []\<rparr>"
        and i = ?blank] e1 e2 e3 g
    by (simp add: Let_def)
  have b1: "scrape_with_aiohttp default_config ?net (normalize_url ''example.com'') io_start
      = (Inr ([], ?blank), \<lparr>requests = 1, launches = 0, closes = 0, sleeps = []\<rparr>)"
    by (simp add: io_start_def example_normalized blank_aiohttp_miss)
  have b2: "scrape_with_playwright default_config ?net (normalize_url ''example.com'')
               \<lparr>requests = 1, launches = 0, closes = 0, sleeps = []\<rparr>
      = (Inl (Raised OtherError ''Executable does not exist''),
         \<lparr>requests = 1, launches = 1, closes = 0, sleeps = []\<rparr>)"
    by (simp add: blank_playwright)
  have b3: "scrape_with_aiohttp default_config ?net ''https://www.example.com''
               \<lparr>requests = 1, launches = 1, closes = 0, sleeps = []\<rparr>
      = (Inr (''<html>hello</html>'', ?full),
         \<lparr>requests = 2, launches = 1, closes = 0, sleeps = []\<rparr>)"
    by (simp add: blank_aiohttp_hit)
  have second: "scrape_website default_config ?net text_only_view ''example.com'' io_start
     = ((\<lparr>doc_url = ''https://www.example.com'', html_text = ''<html>hello</html>'',
          meta_data = [], structured_data = [], content_sections = [], technology_stack = {},
          contact_info = \<lparr>emails = None, phones = None, social_media = None\<rparr>,
          navigation_structure = {}\<rparr>,
         \<lparr>scraping_method = Some ''aiohttp_variation'', scraping_success = True,
          content_length = 18,
          errors_encountered = [''playwright: Executable does not exist'']\<rparr>),
        \<lparr>requests = 2, launches = 1, closes = 0, sleeps = []\<rparr>)"
    using scrape_website_empty_body[where cfg = default_config and net = ?net
        and url = "''example.com''" and st = io_start and lib = text_only_view
        and ?r1.0 = "Inr ([], ?blank)"
        and ?st1.0 = "\<lparr>requests = 1, launches = 0, closes = 0, sleeps = []\<rparr>"
        and ?r2.0 = "Inl (Raised OtherError ''Executable does not exist'')"
        and ?st2.0 = "\<lparr>requests = 1, launches = 1, closes = 0, sleeps = []\<rparr>"
        and ?v1.0 = "''https://www.example.com''" and ?v2.0 = "''http://example.com''"
        and ?r3.0 = "Inr (''<html>hello</html>'', ?full)"
        and ?st3.0 = "\<lparr>requests = 2, launches = 1, closes = 0, sleeps = []\<rparr>"
        and h = "''<html>hello</html>''" and i = ?full
        and d = "\<lparr>doc_url = ''https://www.example.com'', html_text = ''<html>hello</html>'',
          meta_data = [], structured_data = [], content_sections = [], technology_stack = {},
          contact_info = \<lparr>emails = None, phones = None, social_media = None\<rparr>,
          navigation_structure = {}\<rparr>"]
      b1 b2 b3 g plain_page[of "''https://www.example.com''"]
    by (simp add: Let_def)
  from first second show ?thesis by blast
qed

end
